theory Spec2Isabelle
  imports Main
begin

section \<open>JavaScript values\<close>

text \<open>
  The sources are TypeScript whose interesting data is untyped at run time: the wire
  documents returned by the remote API, the \<open>callData\<close> bag and the \<open>apiConfig\<close>
  catalog are plain object literals that the code walks with property reads,
  \<open>hasOwnProperty\<close>, truthiness tests and \<open>typeof\<close>. They are modelled by one
  datatype of run-time values. Numbers are the integers (every number the sources
  compare or print is a count, a length or a flag value). An object keeps its own
  properties in creation order, as \<open>Object.keys\<close> reports them; keys are unique and a
  read takes the first entry. \<open>JInst c ps\<close> is an instance of the class \<open>c\<close> with own
  properties \<open>ps\<close>, so that \<open>instanceof\<close> can tell it from an object literal.
  A \<open>string\<close> holds the code units of the JavaScript string (code units below 256).
\<close>

datatype jsval =
    JUndefined
  | JNull
  | JBool bool
  | JNum int
  | JStr string
  | JArr "jsval list"
  | JObj "(string \<times> jsval) list"
  | JInst string "(string \<times> jsval) list"

text \<open>A fault thrown by the code: a \<open>TypeError\<close> of the run time (a property read on
  \<open>undefined\<close> or \<open>null\<close>, a call of something that is not a function), a fault
  raised by an external collaborator (file system, network), carrying its message, or
  the \<open>new Error(e.toString())\<close> that a \<open>catch\<close> throws in place of \<open>e\<close>.\<close>

datatype error = TypeError | Fault string | Rethrown error

fun truthy :: "jsval \<Rightarrow> bool" where
  "truthy JUndefined = False"
| "truthy JNull = False"
| "truthy (JBool b) = b"
| "truthy (JNum n) = (n \<noteq> 0)"
| "truthy (JStr s) = (s \<noteq> [])"
| "truthy (JArr xs) = True"
| "truthy (JObj ps) = True"
| "truthy (JInst c ps) = True"

text \<open>\<open>a || b\<close> on values.\<close>

definition or_js :: "jsval \<Rightarrow> jsval \<Rightarrow> jsval" where
  "or_js a b = (if truthy a then a else b)"

fun nullish :: "jsval \<Rightarrow> bool" where
  "nullish JUndefined = True"
| "nullish JNull = True"
| "nullish v = False"

definition lookup :: "(string \<times> jsval) list \<Rightarrow> string \<Rightarrow> jsval" where
  "lookup ps k = (case map_of ps k of None \<Rightarrow> JUndefined | Some v \<Rightarrow> v)"

text \<open>
  \<open>field v k\<close> is the property read \<open>v.k\<close> (or \<open>v[k]\<close>) on a receiver that is neither
  \<open>undefined\<close> nor \<open>null\<close>; \<open>get v k\<close> is the read with the \<open>TypeError\<close> of those
  two receivers. Only own named properties and \<open>length\<close> are modelled: the
  sources read data by fixed names (\<open>id\<close>, \<open>data\<close>, \<open>display_name\<close>, ...) and by
  the keys of the object itself, none of which is an index or a member of a prototype.
\<close>

fun field :: "jsval \<Rightarrow> string \<Rightarrow> jsval" where
  "field (JObj ps) k = lookup ps k"
| "field (JInst c ps) k = lookup ps k"
| "field (JArr xs) k = (if k = ''length'' then JNum (int (length xs)) else JUndefined)"
| "field (JStr s) k = (if k = ''length'' then JNum (int (length s)) else JUndefined)"
| "field v k = JUndefined"

definition get :: "jsval \<Rightarrow> string \<Rightarrow> error + jsval" where
  "get v k = (if nullish v then Inl TypeError else Inr (field v k))"

fun typeof :: "jsval \<Rightarrow> string" where
  "typeof JUndefined = ''undefined''"
| "typeof JNull = ''object''"
| "typeof (JBool b) = ''boolean''"
| "typeof (JNum n) = ''number''"
| "typeof (JStr s) = ''string''"
| "typeof (JArr xs) = ''object''"
| "typeof (JObj ps) = ''object''"
| "typeof (JInst c ps) = ''object''"

fun isArray :: "jsval \<Rightarrow> bool" where
  "isArray (JArr xs) = True"
| "isArray v = False"

section \<open>Document model: ObjectAttributeDefinition\<close>

text \<open>The table \<open>MEMBER_MAP\<close> of the class: member name, wire name.\<close>

definition MEMBER_MAP :: "(string \<times> string) list" where
  "MEMBER_MAP =
    [(''defaultValue'', ''default_value''),
     (''displayName'', ''display_name''),
     (''effectiveId'', ''effective_id''),
     (''externallyDefined'', ''externally_defined''),
     (''externallyManaged'', ''externally_managed''),
     (''fieldHeight'', ''field_height''),
     (''fieldWidth'', ''field_width''),
     (''maxValue'', ''max_value''),
     (''minLength'', ''min_length''),
     (''minValue'', ''min_value''),
     (''multiValueType'', ''multi_value_type''),
     (''orderRequired'', ''order_required''),
     (''readOnly'', ''read_only''),
     (''regularExpression'', ''regular_expression''),
     (''requiresEncoding'', ''requires_encoding''),
     (''setValueType'', ''set_value_type''),
     (''siteSpecific'', ''site_specific''),
     (''valueDefinitions'', ''value_definitions''),
     (''valueType'', ''value_type'')]"

text \<open>
  The class \<open>ObjectAttributeValueDefinition\<close> is imported by the sources but its file is
  not among them. Its constructor is a parameter \<open>vd\<close> of everything that builds one:
  \<open>vd raw\<close> are the own properties of \<open>new ObjectAttributeValueDefinition(raw)\<close>.
\<close>

definition new_ObjectAttributeValueDefinition ::
  "(jsval \<Rightarrow> (string \<times> jsval) list) \<Rightarrow> jsval \<Rightarrow> jsval" where
  "new_ObjectAttributeValueDefinition vd raw = JInst ''ObjectAttributeValueDefinition'' (vd raw)"

definition localized_default :: jsval where
  "localized_default = JObj [(''default'', JStr '''')]"

text \<open>
  The own properties of a constructed \<open>ObjectAttributeDefinition\<close>, in creation order:
  the initialised class property \<open>MEMBER_MAP\<close> first, then the assignments of the
  constructor body, each \<open>args.wire_name || default\<close>.
\<close>

definition ObjectAttributeDefinition_members ::
  "(jsval \<Rightarrow> (string \<times> jsval) list) \<Rightarrow> jsval \<Rightarrow> (string \<times> jsval) list" where
  "ObjectAttributeDefinition_members vd args =
    [(''MEMBER_MAP'', JObj (map (\<lambda>(m, w). (m, JStr w)) MEMBER_MAP)),
     (''defaultValue'',
        or_js (new_ObjectAttributeValueDefinition vd (field args ''default_value''))
              (new_ObjectAttributeValueDefinition vd (JObj []))),
     (''description'', or_js (field args ''description'') localized_default),
     (''displayName'', or_js (field args ''display_name'') localized_default),
     (''effectiveId'', or_js (field args ''effective_id'') (JStr '''')),
     (''externallyDefined'', or_js (field args ''externally_defined'') (JBool False)),
     (''externallyManaged'', or_js (field args ''externally_managed'') (JBool False)),
     (''fieldHeight'', or_js (field args ''field_height'') (JNum (- 1))),
     (''fieldWidth'', or_js (field args ''field_width'') (JNum (- 1))),
     (''id'', or_js (field args ''id'') (JStr '''')),
     (''key'', or_js (field args ''key'') (JBool False)),
     (''link'', or_js (field args ''link'') (JStr '''')),
     (''localizable'', or_js (field args ''localizable'') (JBool False)),
     (''mandatory'', or_js (field args ''mandatory'') (JBool False)),
     (''maxValue'', or_js (field args ''max_value'') JNull),
     (''minLength'', or_js (field args ''min_length'') (JNum (- 1))),
     (''minValue'', or_js (field args ''min_value'') JNull),
     (''multiValueType'', or_js (field args ''multi_value_type'') (JBool False)),
     (''orderRequired'', or_js (field args ''order_required'') (JBool False)),
     (''queryable'', or_js (field args ''queryable'') (JBool False)),
     (''readOnly'', or_js (field args ''read_only'') (JBool False)),
     (''regularExpression'', or_js (field args ''regular_expression'') (JStr '''')),
     (''requiresEncoding'', or_js (field args ''requires_encoding'') (JBool False)),
     (''scale'', or_js (field args ''scale'') (JNum (- 1))),
     (''searchable'', or_js (field args ''searchable'') (JBool False)),
     (''setValueType'', or_js (field args ''set_value_type'') (JStr '''')),
     (''siteSpecific'', or_js (field args ''site_specific'') (JBool False)),
     (''system'', or_js (field args ''system'') (JBool False)),
     (''unit'', or_js (field args ''unit'') localized_default),
     (''valueDefinitions'', or_js (field args ''value_definitions'') (JArr [])),
     (''valueType'', or_js (field args ''value_type'') (JStr '''')),
     (''visible'', or_js (field args ''visible'') (JBool False)),
     (''includedFields'', or_js (field args ''includeFields'') (JArr []))]"

text \<open>\<open>new ObjectAttributeDefinition(args)\<close>: the first read \<open>args.default_value\<close>
  throws when \<open>args\<close> is \<open>undefined\<close> or \<open>null\<close>.\<close>

definition new_ObjectAttributeDefinition ::
  "(jsval \<Rightarrow> (string \<times> jsval) list) \<Rightarrow> jsval \<Rightarrow> error + jsval" where
  "new_ObjectAttributeDefinition vd args =
    (if nullish args then Inl TypeError
     else Inr (JInst ''ObjectAttributeDefinition'' (ObjectAttributeDefinition_members vd args)))"


section \<open>Strings and conversions\<close>

text \<open>Decimal digits of a natural number, and \<open>String(n)\<close> for an integer.\<close>

fun string_of_nat :: "nat \<Rightarrow> string" where
  "string_of_nat n =
    (if n < 10 then [''0123456789'' ! n]
     else string_of_nat (n div 10) @ [''0123456789'' ! (n mod 10)])"

definition string_of_int :: "int \<Rightarrow> string" where
  "string_of_int i = (if i < 0 then CHR ''-'' # string_of_nat (nat (- i)) else string_of_nat (nat i))"

fun join :: "string \<Rightarrow> string list \<Rightarrow> string" where
  "join sep [] = []"
| "join sep [x] = x"
| "join sep (x # y # ys) = x @ sep @ join sep (y # ys)"

text \<open>\<open>String(v)\<close>, the conversion that \<open>+\<close> with a string, a property key and
  \<open>encodeURIComponent\<close> apply. An array joins its elements with a comma, \<open>undefined\<close>
  and \<open>null\<close> elements as the empty string; an object without a \<open>toString\<close> of its own
  prints as \<open>[object Object]\<close>. A number prints as its decimal digits: \<open>JNum n\<close> stands
  for the JavaScript number \<open>n\<close> only while \<open>n\<close> is a safe integer (of magnitude below
  \<open>2^53\<close>), and that is where the text is the one JavaScript prints; the counts, sizes
  and lengths of the sources are such numbers.\<close>

fun toString_js :: "jsval \<Rightarrow> string" where
  "toString_js JUndefined = ''undefined''"
| "toString_js JNull = ''null''"
| "toString_js (JBool b) = (if b then ''true'' else ''false'')"
| "toString_js (JNum n) = string_of_int n"
| "toString_js (JStr s) = s"
| "toString_js (JArr xs) = join '','' (map (\<lambda>x. if nullish x then [] else toString_js x) xs)"
| "toString_js (JObj ps) = ''[object Object]''"
| "toString_js (JInst c ps) = ''[object Object]''"

text \<open>\<open>s.indexOf(t) > -1\<close> on strings: \<open>t\<close> occurs in \<open>s\<close>.\<close>

fun starts_with :: "string \<Rightarrow> string \<Rightarrow> bool" where
  "starts_with s [] = True"
| "starts_with [] (c # t) = False"
| "starts_with (d # s) (c # t) = (d = c \<and> starts_with s t)"

fun contains :: "string \<Rightarrow> string \<Rightarrow> bool" where
  "contains [] t = (t = [])"
| "contains (c # s) t = (starts_with (c # s) t \<or> contains s t)"

text \<open>\<open>Object.keys(v)\<close> for an object literal or an instance (the sources apply it to
  nothing else).\<close>

fun Object_keys :: "jsval \<Rightarrow> string list" where
  "Object_keys (JObj ps) = map fst ps"
| "Object_keys (JInst c ps) = map fst ps"
| "Object_keys v = []"

text \<open>\<open>obj[k] = v\<close> on the own properties of an object: an existing key keeps its
  place, a new one is appended.\<close>

fun set_prop :: "(string \<times> jsval) list \<Rightarrow> string \<Rightarrow> jsval \<Rightarrow> (string \<times> jsval) list" where
  "set_prop [] k v = [(k, v)]"
| "set_prop ((k', v') # ps) k v = (if k' = k then (k, v) # ps else (k', v') # set_prop ps k v)"

section \<open>ObjectAttributeDefinition.getDocument\<close>

text \<open>\<open>v.indexOf(name) > -1\<close> on a run-time value \<open>v\<close>: membership for an array,
  occurrence for a string, and a \<open>TypeError\<close> for a value that has no \<open>indexOf\<close>
  (\<open>undefined\<close> and \<open>null\<close> included).\<close>

fun indexOf_found :: "jsval \<Rightarrow> string \<Rightarrow> error + bool" where
  "indexOf_found (JArr xs) name = Inr (JStr name \<in> set xs)"
| "indexOf_found (JStr s) name = Inr (contains s name)"
| "indexOf_found v name = Inl TypeError"

text \<open>The names that survive the optional restriction. The first \<open>filter\<close>, on
  \<open>typeof key !== 'function'\<close>, keeps every key (a key is a string). The callback of
  the restricting \<open>filter\<close> runs once per member name, so a receiver without
  \<open>indexOf\<close> throws only when there is a name to test.\<close>

definition getDocument_memberNames :: "jsval \<Rightarrow> string list \<Rightarrow> error + string list" where
  "getDocument_memberNames this includeFields =
    (let memberNames = Object_keys this in
     if includeFields \<noteq> [] then Inr (filter (\<lambda>name. name \<in> set includeFields) memberNames)
     else (case get (field this ''includedFields'') ''length'' of
             Inl e \<Rightarrow> Inl e
           | Inr len \<Rightarrow>
               if truthy len then
                 (case memberNames of
                    [] \<Rightarrow> Inr []
                  | n # ns \<Rightarrow>
                      (case indexOf_found (field this ''includedFields'') n of
                         Inl e \<Rightarrow> Inl e
                       | Inr b \<Rightarrow>
                           Inr (filter
                                 (\<lambda>name. indexOf_found (field this ''includedFields'') name = Inr True)
                                 memberNames)))
               else Inr memberNames))"

text \<open>The body of the \<open>forEach\<close>: a member that \<open>MEMBER_MAP\<close> names and whose value is
  truthy is written to the document under the mapped name.\<close>

definition getDocument_step :: "jsval \<Rightarrow> string \<Rightarrow> (string \<times> jsval) list \<Rightarrow> (string \<times> jsval) list" where
  "getDocument_step this localPropName documentObj =
    (if localPropName \<in> set (Object_keys (field this ''MEMBER_MAP'')) \<and> truthy (field this localPropName)
     then set_prop documentObj
            (toString_js (field (field this ''MEMBER_MAP'') localPropName))
            (field this localPropName)
     else documentObj)"

text \<open>\<open>getDocument\<close> returns \<open>JSON.stringify(documentObj)\<close>; the model gives the
  object \<open>documentObj\<close> that is handed to \<open>JSON.stringify\<close>, with its properties in
  the order they were written.\<close>

definition getDocument_documentObj :: "jsval \<Rightarrow> string list \<Rightarrow> error + (string \<times> jsval) list" where
  "getDocument_documentObj this includeFields =
    (case getDocument_memberNames this includeFields of
       Inl e \<Rightarrow> Inl e
     | Inr memberNames \<Rightarrow> Inr (fold (getDocument_step this) memberNames []))"

text \<open>A value-definition constructor that sets no property; it stands for the absent
  class wherever a closed example needs one.\<close>

definition no_members :: "jsval \<Rightarrow> (string \<times> jsval) list" where
  "no_members raw = []"

section \<open>Endpoint catalog (apiConfig.ts)\<close>

definition catalog_param :: "string \<Rightarrow> string \<Rightarrow> string \<Rightarrow> jsval" where
  "catalog_param i t u = JObj [(''id'', JStr i), (''type'', JStr t), (''use'', JStr u)]"

definition json_headers :: jsval where
  "json_headers = JObj [(''Content-Type'', JStr ''application/json'')]"

definition validating_headers :: jsval where
  "validating_headers =
     JObj [(''Content-Type'', JStr ''application/json''),
           (''x-dw-validate-existing'', JBool True),
           (''Accept'', JStr ''application/json'')]"

definition catalog_call :: "jsval \<Rightarrow> string \<Rightarrow> jsval list \<Rightarrow> string \<Rightarrow> jsval" where
  "catalog_call hs m ps p =
     JObj [(''authorization'', JStr ''BM_USER''), (''headers'', hs), (''method'', JStr m),
           (''params'', JArr ps), (''path'', JStr p)]"

definition availableCalls :: "(string \<times> jsval) list" where
  "availableCalls =
    [(''get'', catalog_call json_headers ''GET''
        [catalog_param ''objectType'' ''string'' ''PATH_PARAMETER'']
        ''system_object_definitions/{objectType}''),
     (''getAll'', catalog_call json_headers ''GET''
        [catalog_param ''select'' ''string'' ''QUERY_PARAMETER'',
         catalog_param ''count'' ''number'' ''QUERY_PARAMETER'']
        ''system_object_definitions''),
     (''getAttributes'', catalog_call json_headers ''GET''
        [catalog_param ''select'' ''string'' ''QUERY_PARAMETER'',
         catalog_param ''objectType'' ''string'' ''PATH_PARAMETER'']
        ''system_object_definitions/{objectType}/attribute_definitions''),
     (''createAttribute'', catalog_call validating_headers ''PUT''
        [catalog_param ''id'' ''string'' ''PATH_PARAMETER'',
         catalog_param ''objectType'' ''string'' ''PATH_PARAMETER'']
        ''system_object_definitions/{objectType}/attribute_definitions/{id}''),
     (''deleteAttribute'', catalog_call validating_headers ''DELETE''
        [catalog_param ''id'' ''string'' ''PATH_PARAMETER'',
         catalog_param ''objectType'' ''string'' ''PATH_PARAMETER'']
        ''system_object_definitions/{objectType}/attribute_definitions/{id}''),
     (''createAttributeGroup'', catalog_call validating_headers ''PUT''
        [catalog_param ''id'' ''string'' ''PATH_PARAMETER'',
         catalog_param ''objectType'' ''string'' ''PATH_PARAMETER'']
        ''system_object_definitions/{objectType}/attribute_groups/{id}''),
     (''getAttributeGroups'', catalog_call json_headers ''GET''
        [catalog_param ''select'' ''string'' ''QUERY_PARAMETER'',
         catalog_param ''objectType'' ''string'' ''PATH_PARAMETER'']
        ''system_object_definitions/{objectType}/attribute_groups''),
     (''assignAttributeToGroup'', catalog_call json_headers ''PUT''
        [catalog_param ''objectType'' ''string'' ''PATH_PARAMETER'',
         catalog_param ''groupId'' ''string'' ''PATH_PARAMETER'',
         catalog_param ''attributeId'' ''string'' ''PATH_PARAMETER'']
        ''system_object_definitions/{objectType}/attribute_groups/{groupId}/attribute_definitions/{attributeId}'')]"

definition apiConfig :: jsval where
  "apiConfig =
     JObj [(''clientId'', JStr ''aaaaaaaaaaaaaaaaaaaaaaaaaaaaaa''),
           (''clientPassword'', JStr ''aaaaaaaaaaaaaaaaaaaaaaaaaaaaaa''),
           (''resources'',
              JObj [(''systemObjectDefinitions'',
                       JObj [(''api'', JStr ''data''),
                             (''availableCalls'', JObj availableCalls)])]),
           (''version'', JStr ''v18_8'')]"

section \<open>Call resolver (OCAPIService.getCallSetup)\<close>

text \<open>The verbs of \<open>HTTP_VERB\<close> (its file is not among the sources; the resolver only
  ever writes \<open>HTTP_VERB.get\<close>).\<close>

datatype HTTP_VERB = HTTP_VERB_get | HTTP_VERB_post | HTTP_VERB_put | HTTP_VERB_delete

text \<open>The setup and the connection, as the interfaces \<open>ICallSetup\<close> and \<open>IDWConfig\<close>
  shape them in the literals of \<open>getCallSetup\<close> and \<open>getDWConfig\<close>. The field
  \<open>method\<close> is written \<open>httpMethod\<close>, and the fields of the connection carry the
  prefix \<open>dw\<close>, since \<open>endpoint\<close> is a field of the setup already. Where a function
  has a parameter \<open>callName\<close>, the model writes it \<open>callName'\<close>.\<close>

record ICallSetup =
  body :: jsval
  callName :: string
  endpoint :: string
  headers :: jsval
  httpMethod :: HTTP_VERB
  setupErrMsg :: string
  setupError :: bool

record IDWConfig =
  dw_endpoint :: string
  dw_ok :: bool
  dw_password :: string
  dw_username :: string

definition setupResult_default :: ICallSetup where
  "setupResult_default =
     \<lparr>body = JObj [], callName = [], endpoint = [],
      headers = JObj [(''contentType'', JStr ''application/json'')],
      httpMethod = HTTP_VERB_get, setupErrMsg = [], setupError = False\<rparr>"

text \<open>\<open>v.hasOwnProperty(k)\<close> on a value that is neither \<open>undefined\<close> nor \<open>null\<close>.\<close>

fun hasOwnProperty :: "jsval \<Rightarrow> string \<Rightarrow> bool" where
  "hasOwnProperty (JObj ps) k = (k \<in> set (map fst ps))"
| "hasOwnProperty (JInst c ps) k = (k \<in> set (map fst ps))"
| "hasOwnProperty (JArr xs) k = (k = ''length'')"
| "hasOwnProperty (JStr s) k = (k = ''length'')"
| "hasOwnProperty v k = False"

text \<open>
  \<open>encodeURIComponent\<close>: the letters, the digits and \<open>- _ . ! ~ * ' ( )\<close> stand for
  themselves, every other code unit is written as the \<open>%XX\<close> of its UTF-8 bytes
  (one byte below 128, two bytes from 128 to 255).
\<close>

definition uri_unreserved :: "char \<Rightarrow> bool" where
  "uri_unreserved c =
     (c \<in> set ''ABCDEFGHIJKLMNOPQRSTUVWXYZabcdefghijklmnopqrstuvwxyz0123456789-_.!~*()''
      \<or> c = CHR 0x27)"

definition pct :: "nat \<Rightarrow> string" where
  "pct b = [CHR ''%'', ''0123456789ABCDEF'' ! (b div 16), ''0123456789ABCDEF'' ! (b mod 16)]"

definition encode_unit :: "char \<Rightarrow> string" where
  "encode_unit c =
     (let n = (of_char c :: nat) in
      if n < 128 then (if uri_unreserved c then [c] else pct n)
      else pct (192 + n div 64) @ pct (128 + n mod 64))"

definition encodeURIComponent :: "jsval \<Rightarrow> string" where
  "encodeURIComponent v = concat (map encode_unit (toString_js v))"

text \<open>
  \<open>v.forEach(f)\<close>: only an array has the method. On any other value the member read
  yields \<open>undefined\<close> (or throws, for \<open>undefined\<close> and \<open>null\<close>), and the call is a
  \<open>TypeError\<close>. The callback threads the state it mutates and may throw.
\<close>

fun each :: "('a \<Rightarrow> 's \<Rightarrow> error + 's) \<Rightarrow> 'a list \<Rightarrow> 's \<Rightarrow> error + 's" where
  "each f [] s = Inr s"
| "each f (x # xs) s = (case f x s of Inl e \<Rightarrow> Inl e | Inr s' \<Rightarrow> each f xs s')"

fun forEach :: "jsval \<Rightarrow> (jsval \<Rightarrow> 's \<Rightarrow> error + 's) \<Rightarrow> 's \<Rightarrow> error + 's" where
  "forEach (JArr xs) f s = each f xs s"
| "forEach v f s = Inl TypeError"

definition nl :: "string \<Rightarrow> string" where
  "nl s = CHR 0x0A # s"

text \<open>The callback of the parameter loop: the arrow function at lines 98 to 126. The
  result of \<open>setupResult.endpoint.replace(...)\<close> is dropped by the source, so the
  path branch leaves the setup as it is.\<close>

definition getCallSetup_param ::
  "string \<Rightarrow> string \<Rightarrow> jsval \<Rightarrow> jsval \<Rightarrow> ICallSetup \<Rightarrow> error + ICallSetup" where
  "getCallSetup_param resourceName callName' callData param setupResult =
    (case get param ''id'' of
       Inl e \<Rightarrow> Inl e
     | Inr pid \<Rightarrow>
        (let replaceMe = ''{'' @ toString_js pid @ ''}'' in
         case get callData (toString_js pid) of
           Inl e \<Rightarrow> Inl e
         | Inr v \<Rightarrow>
            if truthy v \<and> JStr (typeof v) = field param ''type'' then
              (if field param ''use'' = JStr ''PATH_PARAMETER'' \<and>
                  contains (endpoint setupResult) replaceMe
               then Inr setupResult
               else if field param ''use'' = JStr ''QUERY_PARAMETER'' then
                 Inr (setupResult\<lparr>endpoint :=
                        endpoint setupResult
                        @ (if contains (endpoint setupResult) ''?'' then ''&'' else ''?'')
                        @ encodeURIComponent pid @ ''='' @ encodeURIComponent v\<rparr>)
               else Inr setupResult)
            else
              Inr (setupResult\<lparr>setupError := True,
                     setupErrMsg :=
                       setupErrMsg setupResult
                       @ nl ''Missing call parameter: '' @ toString_js param
                       @ nl ''- Resource: '' @ resourceName
                       @ nl ''- Call type: '' @ callName'\<rparr>)))"

text \<open>The catalog walk of \<open>getCallSetup\<close>, lines 72 to 138, over a catalog \<open>config\<close>.
  The parameter loop is written \<open>callConfig.forEach\<close> in the source: its receiver is
  the call's configuration object, not that object's \<open>params\<close> array.\<close>

definition getCallSetup_structure ::
  "jsval \<Rightarrow> string \<Rightarrow> string \<Rightarrow> jsval \<Rightarrow> error + ICallSetup" where
  "getCallSetup_structure config resourceName callName' callData =
    (case get config ''resources'' of
       Inl e \<Rightarrow> Inl e
     | Inr resources \<Rightarrow>
        if nullish resources then Inl TypeError
        else if hasOwnProperty resources resourceName then
          (let resConfig = field resources resourceName in
           case get resConfig ''api'' of
             Inl e \<Rightarrow> Inl e
           | Inr api \<Rightarrow>
              if truthy api then
                (let s1 = setupResult_default\<lparr>endpoint := ''/dw/'' @ toString_js api @ ''/''\<rparr>;
                     calls = field resConfig ''availableCalls''
                 in
                 if truthy calls \<and> hasOwnProperty calls callName' then
                   (let callConfig = field calls callName' in
                    case get callConfig ''path'' of
                      Inl e \<Rightarrow> Inl e
                    | Inr path \<Rightarrow>
                       (let s2 =
                          (if truthy path then s1\<lparr>endpoint := endpoint s1 @ toString_js path\<rparr>
                           else s1\<lparr>setupError := True,
                                   setupErrMsg :=
                                     setupErrMsg s1
                                     @ nl ''Missing call path in the apiConfig.''
                                     @ nl ''- OCAPI resource: '' @ resourceName
                                     @ nl ''- Call type: '' @ callName'\<rparr>)
                        in
                        if truthy (field callConfig ''params'') \<and>
                           truthy (field (field callConfig ''params'') ''length'')
                        then forEach callConfig
                               (getCallSetup_param resourceName callName' callData) s2
                        else Inr s2))
                 else Inr s1)
              else
                Inr (setupResult_default\<lparr>setupError := True,
                       setupErrMsg :=
                         nl ''No API version was specified in the apiConfig object''\<rparr>))
        else
          Inr (setupResult_default\<lparr>setupError := True,
                 setupErrMsg :=
                   nl ''No setup was found in apiConfig for the specified resource''\<rparr>))"

text \<open>\<open>getDWConfig\<close>: the cached configuration when it is complete, otherwise the
  outcome \<open>found\<close> of the search for a \<open>dw.json\<close> in the workspace (a configuration,
  or the fault of the file system or of the parser).\<close>

definition getDWConfig :: "IDWConfig \<Rightarrow> error + IDWConfig \<Rightarrow> error + IDWConfig" where
  "getDWConfig dwConfig found =
    (if dw_endpoint dwConfig \<noteq> [] \<and> dw_username dwConfig \<noteq> [] \<and>
        dw_password dwConfig \<noteq> [] \<and> dw_ok dwConfig
     then Inr dwConfig else found)"

text \<open>\<open>getCallSetup\<close> over a catalog: the setup and the new value of the field
  \<open>this.dwConfig\<close>, or the fault that rejects the promise.\<close>

definition getCallSetup_with ::
  "jsval \<Rightarrow> IDWConfig \<Rightarrow> error + IDWConfig \<Rightarrow> string \<Rightarrow> string \<Rightarrow> jsval
     \<Rightarrow> error + ICallSetup \<times> IDWConfig" where
  "getCallSetup_with config dwConfig found resourceName callName' callData =
    (case getCallSetup_structure config resourceName callName' callData of
       Inl e \<Rightarrow> Inl e
     | Inr setupResult \<Rightarrow>
        if \<not> setupError setupResult then
          (case getDWConfig dwConfig found of
             Inl e \<Rightarrow> Inl e
           | Inr cfg \<Rightarrow>
              if \<not> dw_ok cfg then Inr (setupResult\<lparr>setupError := True\<rparr>, cfg)
              else Inr (setupResult\<lparr>endpoint := dw_endpoint cfg @ endpoint setupResult\<rparr>, cfg))
        else Inr (setupResult, dwConfig))"

definition getCallSetup ::
  "IDWConfig \<Rightarrow> error + IDWConfig \<Rightarrow> string \<Rightarrow> string \<Rightarrow> jsval
     \<Rightarrow> error + ICallSetup \<times> IDWConfig" where
  "getCallSetup = getCallSetup_with apiConfig"

definition dwConfig_initial :: IDWConfig where
  "dwConfig_initial = \<lparr>dw_endpoint = [], dw_ok = False, dw_password = [], dw_username = []\<rparr>"

section \<open>Tree nodes\<close>

datatype TreeItemCollapsibleState =
    TreeItemCollapsibleState_None
  | TreeItemCollapsibleState_Collapsed
  | TreeItemCollapsibleState_Expanded

text \<open>
  The class \<open>MetadataNode\<close> is imported by the sources but its file is not among them.
  A node is modelled by the three arguments every \<open>new MetadataNode(name, state,
  nodeData)\<close> of the sources passes: the label, the collapsible state and the object
  literal \<open>nodeData\<close>. A read \<open>element.k\<close> of one of the data members (\<open>parentId\<close>,
  \<open>baseNodeName\<close>, \<open>objectTypeDefinition\<close>, ...) is the entry \<open>k\<close> of \<open>nodeData\<close>.
\<close>

record MetadataNode =
  name :: jsval
  collapsibleState :: TreeItemCollapsibleState
  nodeData :: "(string \<times> jsval) list"

definition node_prop :: "MetadataNode \<Rightarrow> string \<Rightarrow> jsval" where
  "node_prop element k = lookup (nodeData element) k"

text \<open>Modelled from the spec: the member \<open>expandable\<close> of the absent class
  \<open>MetadataNode\<close>. A node is expandable unless it was built with
  \<open>TreeItemCollapsibleState.None\<close>.\<close>

definition expandable :: "MetadataNode \<Rightarrow> bool" where
  "expandable element = (collapsibleState element \<noteq> TreeItemCollapsibleState_None)"

text \<open>Modelled from the spec: the member \<open>nodeType\<close> of the absent class
  \<open>MetadataNode\<close>, the variant tag of the node. It is the name of the payload that
  \<open>nodeData\<close> carries.\<close>

definition nodeType :: "MetadataNode \<Rightarrow> string" where
  "nodeType element =
    (case filter (\<lambda>k. k \<in> set (map fst (nodeData element)))
            [''baseNodeName'', ''objectTypeDefinition'', ''parentContainer'',
             ''objectAttributeDefinition'', ''objectAttributeGroup'',
             ''objectAttributeValueDefinition'', ''objectAttributeValueDefinitions'',
             ''stringList'']
     of [] \<Rightarrow> [] | k # ks \<Rightarrow> k)"

text \<open>
  The provider reaches the remote API through \<open>service.getCallSetup\<close> followed by
  \<open>service.makeCall\<close>, of the \<open>OCAPIService\<close> it imports from \<open>../services\<close> (that
  version is not among the sources). The pair of calls is a parameter: \<open>service
  resourceName callName callData\<close> is the value the awaited \<open>makeCall\<close> resolves to,
  or the fault that rejects it.
\<close>

type_synonym service = "jsval \<Rightarrow> string \<Rightarrow> jsval \<Rightarrow> error + jsval"

text \<open>\<open>s.split(c)\<close> for a one-character separator, and \<open>xs.pop()\<close> as the removed
  element (\<open>undefined\<close> on the empty array) with the rest.\<close>

fun split_on :: "char \<Rightarrow> string \<Rightarrow> string list" where
  "split_on c [] = [[]]"
| "split_on c (x # xs) =
     (if x = c then [] # split_on c xs
      else (case split_on c xs of [] \<Rightarrow> [[x]] | w # ws \<Rightarrow> (x # w) # ws))"

fun pop :: "string list \<Rightarrow> jsval \<times> string list" where
  "pop [] = (JUndefined, [])"
| "pop [x] = (JStr x, [])"
| "pop (x # y # ys) = (fst (pop (y # ys)), x # snd (pop (y # ys)))"

fun mapM :: "('a \<Rightarrow> error + 'b) \<Rightarrow> 'a list \<Rightarrow> error + 'b list" where
  "mapM f [] = Inr []"
| "mapM f (x # xs) =
     (case f x of
        Inl e \<Rightarrow> Inl e
      | Inr y \<Rightarrow> (case mapM f xs of Inl e \<Rightarrow> Inl e | Inr ys \<Rightarrow> Inr (y # ys)))"

fun filterM :: "('a \<Rightarrow> error + bool) \<Rightarrow> 'a list \<Rightarrow> error + 'a list" where
  "filterM f [] = Inr []"
| "filterM f (x # xs) =
     (case f x of
        Inl e \<Rightarrow> Inl e
      | Inr b \<Rightarrow>
          (case filterM f xs of
             Inl e \<Rightarrow> Inl e
           | Inr ys \<Rightarrow> Inr (if b then x # ys else ys)))"

fun array_items :: "jsval \<Rightarrow> jsval list" where
  "array_items (JArr xs) = xs"
| "array_items v = []"

text \<open>The class \<open>ObjectAttributeGroup\<close> and the class \<open>ObjectTypeDefinition\<close> are not
  among the sources either; like \<open>vd\<close>, their constructors are parameters \<open>ag\<close> and
  \<open>otd\<close> that give the own properties of the instance.\<close>

definition new_ObjectAttributeGroup ::
  "(jsval \<Rightarrow> (string \<times> jsval) list) \<Rightarrow> jsval \<Rightarrow> jsval" where
  "new_ObjectAttributeGroup ag raw = JInst ''ObjectAttributeGroup'' (ag raw)"

definition new_ObjectTypeDefinition ::
  "(jsval \<Rightarrow> (string \<times> jsval) list) \<Rightarrow> jsval \<Rightarrow> jsval" where
  "new_ObjectTypeDefinition otd raw = JInst ''ObjectTypeDefinition'' (otd raw)"

text \<open>\<open>resultObj.display_name ? resultObj.display_name.default : ''\<close>\<close>

definition displayDescription_of :: "jsval \<Rightarrow> jsval" where
  "displayDescription_of resultObj =
    (if truthy (field resultObj ''display_name'')
     then field (field resultObj ''display_name'') ''default'' else JStr [])"

section \<open>Tree materializer (MetadataViewProvider)\<close>

text \<open>The callbacks of the two \<open>_callResult.data.map\<close>: one row of the response, one
  collapsed node.\<close>

definition attributeDefinition_row ::
  "(jsval \<Rightarrow> (string \<times> jsval) list) \<Rightarrow> string \<Rightarrow> jsval \<Rightarrow> jsval \<Rightarrow> error + MetadataNode" where
  "attributeDefinition_row vd parentId objectType resultObj =
    (case get resultObj ''id'' of
       Inl e \<Rightarrow> Inl e
     | Inr rid \<Rightarrow>
        (case new_ObjectAttributeDefinition vd resultObj of
           Inl e \<Rightarrow> Inl e
         | Inr oad \<Rightarrow>
            Inr \<lparr>name = rid, collapsibleState = TreeItemCollapsibleState_Collapsed,
                 nodeData =
                   [(''parentId'', JStr (parentId @ ''.'' @ toString_js objectType)),
                    (''objectAttributeDefinition'', oad),
                    (''displayDescription'', displayDescription_of resultObj)]\<rparr>))"

definition attributeGroup_row ::
  "(jsval \<Rightarrow> (string \<times> jsval) list) \<Rightarrow> string \<Rightarrow> jsval \<Rightarrow> jsval \<Rightarrow> error + MetadataNode" where
  "attributeGroup_row ag parentId objectType resultObj =
    (case get resultObj ''id'' of
       Inl e \<Rightarrow> Inl e
     | Inr rid \<Rightarrow>
        Inr \<lparr>name = rid, collapsibleState = TreeItemCollapsibleState_Collapsed,
             nodeData =
               [(''parentId'', JStr (parentId @ ''.'' @ toString_js objectType)),
                (''objectAttributeGroup'', new_ObjectAttributeGroup ag resultObj),
                (''displayDescription'', displayDescription_of resultObj)]\<rparr>)"

text \<open>An informational leaf: a label, not expandable, and the lineage.\<close>

definition leaf :: "string \<Rightarrow> string \<Rightarrow> MetadataNode" where
  "leaf label parentId =
     \<lparr>name = JStr label, collapsibleState = TreeItemCollapsibleState_None,
      nodeData = [(''parentId'', JStr parentId)]\<rparr>"

text \<open>\<open>getAttributeOrGroupContainerChildren\<close>. A node whose \<open>parentId\<close> is not a string
  has no \<open>split\<close>, and the call throws.\<close>

definition getAttributeOrGroupContainerChildren ::
  "(jsval \<Rightarrow> (string \<times> jsval) list) \<Rightarrow> (jsval \<Rightarrow> (string \<times> jsval) list) \<Rightarrow> service
     \<Rightarrow> MetadataNode \<Rightarrow> error + MetadataNode list" where
  "getAttributeOrGroupContainerChildren vd ag service element =
    (case node_prop element ''parentId'' of
       JStr parentId \<Rightarrow>
        (let path = split_on CHR ''.'' parentId;
             objectType = fst (pop path);
             parentType = fst (pop (snd (pop path)));
             isAttribute = (name element \<noteq> JStr ''Attribute Groups'')
         in
         if isAttribute then
           (case service parentType ''getAttributes''
                   (JObj [(''count'', JNum 700), (''objectType'', objectType),
                          (''select'', JStr ''(**)'')]) of
              Inl e \<Rightarrow> Inl (Rethrown e)
            | Inr callResult \<Rightarrow>
               (case get callResult ''error'' of
                  Inl e \<Rightarrow> Inl e
                | Inr err \<Rightarrow>
                   if \<not> truthy err \<and> isArray (field callResult ''data'') then
                     mapM (attributeDefinition_row vd parentId objectType)
                       (array_items (field callResult ''data''))
                   else
                     Inr [leaf ''Unable to load...''
                            (''root.systemObjectDefinitions.'' @ toString_js objectType)]))
         else
           (case service (JStr ''systemObjectDefinitions'') ''getAttributeGroups''
                   (JObj [(''select'', JStr ''(**)''), (''count'', JNum 150),
                          (''expand'', JStr ''definition''), (''objectType'', objectType)]) of
              Inl e \<Rightarrow> Inl e
            | Inr callResult \<Rightarrow>
               (case get callResult ''error'' of
                  Inl e \<Rightarrow> Inl e
                | Inr err \<Rightarrow>
                   if \<not> truthy err \<and> isArray (field callResult ''data'') then
                     mapM (attributeGroup_row ag parentId objectType)
                       (array_items (field callResult ''data''))
                   else if \<not> truthy err \<and> field callResult ''count'' = JNum 0 then
                     Inr [leaf ''No attribute groups defined''
                            (parentId @ ''.'' @ toString_js objectType)]
                   else
                     Inr [leaf ''Unable to load...''
                            (parentId @ ''.'' @ toString_js objectType)])))
     | _ \<Rightarrow> Inl TypeError)"

text \<open>\<open>SitePreferencesHelper.getAllPreferences\<close>. \<open>None\<close> is the \<open>undefined\<close> the
  function returns when it falls off its end.\<close>

definition getAllPreferences ::
  "(jsval \<Rightarrow> (string \<times> jsval) list) \<Rightarrow> service \<Rightarrow> error + MetadataNode list option" where
  "getAllPreferences ag service =
    (case service (JStr ''systemObjectDefinitions'') ''getAttributeGroups''
            (JObj [(''select'', JStr ''(**)''), (''expand'', JStr ''definition''),
                   (''objectType'', JStr ''SitePreferences'')]) of
       Inl e \<Rightarrow> Inl e
     | Inr callResult \<Rightarrow>
        (case get callResult ''error'' of
           Inl e \<Rightarrow> Inl e
         | Inr err \<Rightarrow>
            if \<not> truthy err \<and> isArray (field callResult ''data'') then
              (case mapM
                      (\<lambda>resultObj.
                         case get resultObj ''id'' of
                           Inl e \<Rightarrow> Inl e
                         | Inr rid \<Rightarrow>
                            Inr \<lparr>name = rid,
                                 collapsibleState = TreeItemCollapsibleState_Collapsed,
                                 nodeData =
                                   [(''parentId'', JStr ''sitePreferences''),
                                    (''objectAttributeGroup'', new_ObjectAttributeGroup ag resultObj),
                                    (''displayDescription'', displayDescription_of resultObj)]\<rparr>)
                      (array_items (field callResult ''data'')) of
                 Inl e \<Rightarrow> Inl e
               | Inr nodes \<Rightarrow> Inr (Some nodes))
            else if \<not> truthy err \<and> field callResult ''count'' = JNum 0 then
              Inr (Some [leaf ''No attribute groups defined'' ''sitePreferences''])
            else Inr None))"

text \<open>The callbacks of \<open>filter\<close> and \<open>map\<close> in \<open>getBaseNodeChildren\<close>.\<close>

definition baseNode_keep :: "jsval \<Rightarrow> jsval \<Rightarrow> error + bool" where
  "baseNode_keep baseName obj =
    (case get obj ''object_type'' of
       Inl e \<Rightarrow> Inl e
     | Inr t \<Rightarrow>
        Inr (if baseName = JStr ''systemObjectDefinitions'' then t \<noteq> JStr ''CustomObject''
             else t = JStr ''CustomObject'' \<and> truthy (field obj ''display_name'')))"

definition baseNode_node ::
  "(jsval \<Rightarrow> (string \<times> jsval) list) \<Rightarrow> jsval \<Rightarrow> jsval \<Rightarrow> error + MetadataNode" where
  "baseNode_node otd baseName filterdObj =
    (case (if baseName = JStr ''systemObjectDefinitions'' then get filterdObj ''object_type''
           else if baseName = JStr ''customObjectDefinitions''
             then (case get filterdObj ''display_name'' of
                     Inl e \<Rightarrow> Inl e
                   | Inr dn \<Rightarrow> get dn ''default'')
           else Inr (JStr [])) of
       Inl e \<Rightarrow> Inl e
     | Inr nm \<Rightarrow>
        Inr \<lparr>name = nm, collapsibleState = TreeItemCollapsibleState_Collapsed,
             nodeData =
               [(''parentId'', JStr (''root.'' @ toString_js baseName)),
                (''objectTypeDefinition'', new_ObjectTypeDefinition otd filterdObj),
                (''displayDescription'', JStr '' '')]\<rparr>)"

text \<open>\<open>getBaseNodeChildren\<close>. \<open>None\<close> is the \<open>undefined\<close> the function returns when
  the test on \<open>_callResult.data\<close> fails: the \<open>if\<close> has no \<open>else\<close> and nothing follows
  it.\<close>

definition getBaseNodeChildren ::
  "(jsval \<Rightarrow> (string \<times> jsval) list) \<Rightarrow> (jsval \<Rightarrow> (string \<times> jsval) list) \<Rightarrow> service
     \<Rightarrow> MetadataNode \<Rightarrow> error + MetadataNode list option" where
  "getBaseNodeChildren otd ag service element =
    (let baseName = node_prop element ''baseNodeName'' in
     if baseName = JStr ''sitePreferences'' then getAllPreferences ag service
     else
       (case service baseName ''getAll'' (JObj [(''count'', JNum 500), (''select'', JStr ''(**)'')]) of
          Inl e \<Rightarrow> Inl e
        | Inr callResult \<Rightarrow>
           (case get callResult ''data'' of
              Inl e \<Rightarrow> Inl e
            | Inr d \<Rightarrow>
               if truthy d \<and> isArray d then
                 (case filterM (baseNode_keep baseName) (array_items d) of
                    Inl e \<Rightarrow> Inl e
                  | Inr kept \<Rightarrow>
                     (case mapM (baseNode_node otd baseName) kept of
                        Inl e \<Rightarrow> Inl e
                      | Inr nodes \<Rightarrow> Inr (Some nodes)))
               else Inr None)))"

text \<open>\<open>getObjectDefinitionChildren\<close>: one node per key of \<open>displayTextMap\<close>, in the
  order of the keys. \<open>v.toString()\<close> throws on \<open>undefined\<close> and \<open>null\<close>.\<close>

definition displayTextMap :: "(string \<times> string) list" where
  "displayTextMap =
     [(''objectAttributeDefinitions'', ''Attribute Definitions''),
      (''objectAttributeGroups'', ''Attribute Groups'')]"

definition toString_method :: "jsval \<Rightarrow> error + string" where
  "toString_method v = (if nullish v then Inl TypeError else Inr (toString_js v))"

definition objectDefinition_child :: "MetadataNode \<Rightarrow> string \<times> string \<Rightarrow> error + MetadataNode" where
  "objectDefinition_child element entry =
    (case indexOf_found (node_prop element ''parentId'') ''customObjectDefinitions'' of
       Inl e \<Rightarrow> Inl e
     | Inr custom \<Rightarrow>
        (case get (node_prop element ''objectTypeDefinition'')
                (if fst entry = ''objectAttributeDefinitions''
                 then ''attributeDefinitionCount'' else ''attributeGroupCount'') of
           Inl e \<Rightarrow> Inl e
         | Inr n \<Rightarrow>
            (case toString_method n of
               Inl e \<Rightarrow> Inl e
             | Inr description \<Rightarrow>
                Inr \<lparr>name = JStr (snd entry),
                     collapsibleState =
                       (if custom then TreeItemCollapsibleState_None
                        else TreeItemCollapsibleState_Collapsed),
                     nodeData =
                       [(''displayDescription'', JStr description),
                        (''parentContainer'', JStr (fst entry)),
                        (''parentId'',
                           JStr (toString_js (node_prop element ''parentId'') @ ''.''
                                 @ toString_js (field (node_prop element ''objectTypeDefinition'')
                                                  ''objectType'')))]\<rparr>)))"

definition getObjectDefinitionChildren :: "MetadataNode \<Rightarrow> error + MetadataNode list" where
  "getObjectDefinitionChildren element = mapM (objectDefinition_child element) displayTextMap"




section \<open>Export serializer (XMLHandler)\<close>

text \<open>
  The document is built with the library \<open>xmlbuilder\<close>, which is not part of the
  repository. Its tree is modelled by elements with attributes and children, and its
  method \<open>ele\<close> in the forms the sources use: \<open>ele(name, attributes, text)\<close>,
  \<open>ele(name, x)\<close> where an object \<open>x\<close> gives the attributes and any other \<open>x\<close> the
  text, and \<open>ele({name: text})\<close>. A text is written with \<open>String\<close>; an \<open>undefined\<close>
  text gives an element without text and a \<open>null\<close> text no element. The model is
  that of the library for texts that are strings, numbers and booleans; a text that is
  itself an object makes the library build nested elements, which is not modelled.
\<close>

datatype xml = Element string "(string \<times> string) list" "xml list" | Text string

definition ele3 :: "string \<Rightarrow> (string \<times> string) list \<Rightarrow> jsval \<Rightarrow> xml list" where
  "ele3 nm attributes text =
    (if text = JNull then []
     else if text = JUndefined then [Element nm attributes []]
     else [Element nm attributes [Text (toString_js text)]])"

text \<open>One attribute of an element: the library leaves out an attribute whose value is
  \<open>undefined\<close> or \<open>null\<close> and writes any other value with \<open>String\<close>.\<close>

definition attribute_entry :: "string \<Rightarrow> jsval \<Rightarrow> (string \<times> string) list" where
  "attribute_entry k v = (if nullish v then [] else [(k, toString_js v)])"

fun attributes_of :: "jsval \<Rightarrow> (string \<times> string) list" where
  "attributes_of (JObj ps) = concat (map (\<lambda>(k, v). attribute_entry k v) ps)"
| "attributes_of (JInst c ps) = concat (map (\<lambda>(k, v). attribute_entry k v) ps)"
| "attributes_of (JArr xs) =
     concat (map (\<lambda>(k, v). attribute_entry k v) (zip (map string_of_nat [0..<length xs]) xs))"
| "attributes_of v = []"

definition ele2 :: "string \<Rightarrow> jsval \<Rightarrow> xml list" where
  "ele2 nm x =
    (if typeof x = ''object'' \<and> x \<noteq> JNull then [Element nm (attributes_of x) []]
     else ele3 nm [] x)"

definition ele_object :: "(string \<times> jsval) list \<Rightarrow> xml list" where
  "ele_object ps = concat (map (\<lambda>(k, v). if nullish v then [] else ele3 k [] v) ps)"

definition NAMESPACE_STRING :: string where
  "NAMESPACE_STRING = ''http://www.demandware.com/xml/impex/metadata/2006-10-31''"

text \<open>\<open>s.toLocaleLowerCase()\<close> in a locale without special casing rules; only a string
  has the method.\<close>

definition lower :: "char \<Rightarrow> char" where
  "lower c =
    (let n = (of_char c :: nat) in
     if (65 \<le> n \<and> n \<le> 90) \<or> (192 \<le> n \<and> n \<le> 222 \<and> n \<noteq> 215) then char_of (n + 32) else c)"

fun toLocaleLowerCase :: "jsval \<Rightarrow> error + string" where
  "toLocaleLowerCase (JStr s) = Inr (map lower s)"
| "toLocaleLowerCase v = Inl TypeError"

text \<open>The callback of \<open>attribute.valueDefinitions.forEach\<close>: the children it appends
  to the \<open>value-definitions\<close> element.\<close>

definition valueDefinition_xml :: "jsval \<Rightarrow> xml list \<Rightarrow> error + xml list" where
  "valueDefinition_xml valDef children =
    (case get valDef ''displayValue'' of
       Inl e \<Rightarrow> Inl e
     | Inr displayValue \<Rightarrow>
        if truthy displayValue \<and> truthy (field valDef ''value'') then
          Inr (children @
               [Element ''value-definition'' []
                  (ele3 ''display'' [(''xml:lang'', ''x-default'')] (field displayValue ''default'')
                   @ ele2 ''value'' (JStr (toString_js (field valDef ''value''))))])
        else Inr children)"

text \<open>The children that depend on the value type, then those that depend on the
  owning object type (the \<open>switch\<close>).\<close>

definition valueType_children :: "jsval \<Rightarrow> string \<Rightarrow> error + xml list" where
  "valueType_children attribute valType =
    (if valType = ''string'' then Inr (ele_object [(''min-length'', field attribute ''minLength'')])
     else if contains valType ''enum'' then
       (case get (field attribute ''valueDefinitions'') ''length'' of
          Inl e \<Rightarrow> Inl e
        | Inr len \<Rightarrow>
           if truthy len then
             (case forEach (field attribute ''valueDefinitions'') valueDefinition_xml [] of
                Inl e \<Rightarrow> Inl e
              | Inr children \<Rightarrow> Inr [Element ''value-definitions'' [] children])
           else Inr [])
     else Inr [])"

definition defaultValue_children :: "jsval \<Rightarrow> xml list" where
  "defaultValue_children attribute =
    (if truthy (field attribute ''defaultValue'')
     then ele2 ''default-value'' (field (field attribute ''defaultValue'') ''value'') else [])"

definition objectType_children :: "jsval \<Rightarrow> jsval \<Rightarrow> xml list" where
  "objectType_children systemObjectType attribute =
    (if systemObjectType = JStr ''Product'' then
       ele2 ''localizable-flag'' (field attribute ''localizable'')
       @ ele2 ''site-specific-flag'' (field attribute ''siteSpecific'')
       @ ele2 ''visible-flag'' (field attribute ''visible'')
       @ ele2 ''order-required-flag'' (field attribute ''orderRequired'')
       @ ele2 ''externally-defined-flag'' (field attribute ''externallyDefined'')
       @ defaultValue_children attribute
     else if systemObjectType = JStr ''SitePreferences'' then defaultValue_children attribute
     else [])"

text \<open>\<open>getObjectAttributeXML\<close>: the \<open>type-extension\<close> element it appends to the root.\<close>

definition getObjectAttributeXML :: "jsval \<Rightarrow> jsval \<Rightarrow> error + xml" where
  "getObjectAttributeXML systemObjectType attribute =
    (case get attribute ''valueType'' of
       Inl e \<Rightarrow> Inl e
     | Inr valueType \<Rightarrow>
        (case toLocaleLowerCase valueType of
           Inl e \<Rightarrow> Inl e
         | Inr valType \<Rightarrow>
            (case get (field attribute ''displayName'') ''default'' of
               Inl e \<Rightarrow> Inl e
             | Inr displayName \<Rightarrow>
                (case get (field attribute ''description'') ''default'' of
                   Inl e \<Rightarrow> Inl e
                 | Inr description \<Rightarrow>
                    (case valueType_children attribute valType of
                       Inl e \<Rightarrow> Inl e
                     | Inr typed \<Rightarrow>
                        Inr (Element ''type-extension''
                               (attribute_entry ''type-id'' systemObjectType)
                               [Element ''custom-attribute-definitions'' []
                                  [Element ''attribute-definition''
                                     (attribute_entry ''attribute-id'' (field attribute ''id''))
                                     (ele3 ''display-name'' [(''xml:lang'', ''x-default'')] displayName
                                      @ ele3 ''description'' [(''xml:lang'', ''x-default'')] description
                                      @ ele2 ''type'' valueType
                                      @ ele2 ''mandatory-flag'' (field attribute ''mandatory'')
                                      @ ele2 ''externally-managed-flag''
                                          (field attribute ''externallyManaged'')
                                      @ typed
                                      @ objectType_children systemObjectType attribute)]]))))))"

text \<open>\<open>getObjectGroupXML\<close>, with the callback of its \<open>forEach\<close>.\<close>

definition groupAttribute_xml :: "jsval \<Rightarrow> xml list \<Rightarrow> error + xml list" where
  "groupAttribute_xml attr children =
    (case get attr ''id'' of
       Inl e \<Rightarrow> Inl e
     | Inr i \<Rightarrow> Inr (children @ [Element ''attribute'' (attribute_entry ''attribute-id'' i) []]))"

definition getObjectGroupXML :: "jsval \<Rightarrow> jsval \<Rightarrow> error + xml" where
  "getObjectGroupXML systemObjectType objectAttributeGroup =
    (case get objectAttributeGroup ''id'' of
       Inl e \<Rightarrow> Inl e
     | Inr i \<Rightarrow>
        (case get (field objectAttributeGroup ''attributeDefinitions'') ''length'' of
           Inl e \<Rightarrow> Inl e
         | Inr len \<Rightarrow>
            (case (if truthy len
                   then forEach (field objectAttributeGroup ''attributeDefinitions'')
                          groupAttribute_xml []
                   else Inr []) of
               Inl e \<Rightarrow> Inl e
             | Inr members \<Rightarrow>
                Inr (Element ''type-extension''
                       (attribute_entry ''type-id'' systemObjectType)
                       [Element ''group-definitions'' []
                          [Element ''attribute-group'' (attribute_entry ''group-id'' i)
                             (ele3 ''display-name'' [(''xml:lang'', ''x-default'')]
                                (field objectAttributeGroup ''displayName'')
                              @ members)]]))))"

text \<open>\<open>getXMLFromNode\<close>: the document whose text \<open>rootNode.end\<close> hands to the editor.
  The owning object type is what \<open>pop\<close> takes off the split lineage.\<close>

definition getXMLFromNode :: "MetadataNode \<Rightarrow> error + xml" where
  "getXMLFromNode metaNode =
    (case node_prop metaNode ''parentId'' of
       JStr parentId \<Rightarrow>
        (let systemObjectType = fst (pop (split_on CHR ''.'' parentId)) in
         if nodeType metaNode = ''objectAttributeDefinition'' then
           (case getObjectAttributeXML systemObjectType
                   (node_prop metaNode ''objectAttributeDefinition'') of
              Inl e \<Rightarrow> Inl e
            | Inr t \<Rightarrow> Inr (Element ''metadata'' [(''xmlns'', NAMESPACE_STRING)] [t]))
         else if nodeType metaNode = ''objectAttributeGroup'' then
           (case getObjectGroupXML systemObjectType
                   (node_prop metaNode ''objectAttributeGroup'') of
              Inl e \<Rightarrow> Inl e
            | Inr t \<Rightarrow> Inr (Element ''metadata'' [(''xmlns'', NAMESPACE_STRING)] [t]))
         else Inr (Element ''metadata'' [(''xmlns'', NAMESPACE_STRING)] []))
     | _ \<Rightarrow> Inl TypeError)"

text \<open>All elements of a document with a given name, in document order.\<close>

fun elements_named :: "string \<Rightarrow> xml \<Rightarrow> xml list" where
  "elements_named nm (Text t) = []"
| "elements_named nm (Element n attributes children) =
     (if n = nm then [Element n attributes children] else [])
     @ concat (map (elements_named nm) children)"

section \<open>Example inputs\<close>

text \<open>Concrete inputs for the closed examples of the properties below: a usable
  connection, responses of the remote API, and nodes of the tree.\<close>

definition dw_example :: IDWConfig where
  "dw_example =
     \<lparr>dw_endpoint = ''https://host.example/s/-'', dw_ok = True,
      dw_password = ''secret'', dw_username = ''admin''\<rparr>"

text \<open>A catalog with one call, whose only parameter is the query parameter
  \<open>select\<close>.\<close>

definition catalog_select_only :: jsval where
  "catalog_select_only =
     JObj [(''resources'',
              JObj [(''systemObjectDefinitions'',
                       JObj [(''api'', JStr ''data/v20_4''),
                             (''availableCalls'',
                                JObj [(''getAll'',
                                         catalog_call json_headers ''GET''
                                           [catalog_param ''select'' ''string'' ''QUERY_PARAMETER'']
                                           ''system_object_definitions'')])])])]"

text \<open>The response \<open>{count: 0}\<close> to every request, and the response
  \<open>{error: true, fault: {}}\<close> to every request.\<close>

definition service_empty :: service where
  "service_empty resourceName callName' callData = Inr (JObj [(''count'', JNum 0)])"

definition service_failing :: service where
  "service_failing resourceName callName' callData =
     Inr (JObj [(''error'', JBool True), (''fault'', JObj [])])"

definition node_systemObjectDefinitions :: MetadataNode where
  "node_systemObjectDefinitions =
     \<lparr>name = JStr ''System Object Definitions'',
      collapsibleState = TreeItemCollapsibleState_Collapsed,
      nodeData = [(''parentId'', JStr ''root''),
                  (''baseNodeName'', JStr ''systemObjectDefinitions'')]\<rparr>"

definition node_attributeGroups :: MetadataNode where
  "node_attributeGroups =
     \<lparr>name = JStr ''Attribute Groups'',
      collapsibleState = TreeItemCollapsibleState_Collapsed,
      nodeData = [(''displayDescription'', JStr ''0''),
                  (''parentContainer'', JStr ''objectAttributeGroups''),
                  (''parentId'', JStr ''root.systemObjectDefinitions.Product'')]\<rparr>"

definition node_objectType :: "string \<Rightarrow> MetadataNode" where
  "node_objectType parentId =
     \<lparr>name = JStr ''Basket'',
      collapsibleState = TreeItemCollapsibleState_Collapsed,
      nodeData = [(''parentId'', JStr parentId),
                  (''objectTypeDefinition'',
                     JInst ''ObjectTypeDefinition''
                       [(''objectType'', JStr ''Basket''),
                        (''attributeDefinitionCount'', JNum 12),
                        (''attributeGroupCount'', JNum 3)]),
                  (''displayDescription'', JStr '' '')]\<rparr>"

definition node_attribute :: "(string \<times> jsval) list \<Rightarrow> MetadataNode" where
  "node_attribute wire =
     \<lparr>name = lookup wire ''id'',
      collapsibleState = TreeItemCollapsibleState_Collapsed,
      nodeData = [(''parentId'', JStr ''root.systemObjectDefinitions.Product.Product''),
                  (''objectAttributeDefinition'',
                     JInst ''ObjectAttributeDefinition''
                       (ObjectAttributeDefinition_members no_members (JObj wire))),
                  (''displayDescription'', JStr [])]\<rparr>"


text \<open>A service that answers every request with one row, whose \<open>id\<close> is the resource
  name of the request; and the Attribute Definitions container of an object type under
  the custom lineage.\<close>

definition service_echo :: service where
  "service_echo resourceName callName' callData =
     Inr (JObj [(''data'', JArr [JObj [(''id'', resourceName)]])])"

definition node_customAttributeDefinitions :: MetadataNode where
  "node_customAttributeDefinitions =
     \<lparr>name = JStr ''Attribute Definitions'',
      collapsibleState = TreeItemCollapsibleState_None,
      nodeData = [(''displayDescription'', JStr ''12''),
                  (''parentContainer'', JStr ''objectAttributeDefinitions''),
                  (''parentId'', JStr ''root.customObjectDefinitions.Basket'')]\<rparr>"

section \<open>Properties of the string helpers\<close>

lemma split_on_not_Nil: "split_on c s \<noteq> []"
  by (induction s) (auto split: list.splits)

lemma pop_last: "xs \<noteq> [] \<Longrightarrow> fst (pop xs) = JStr (last xs)"
  by (induction xs rule: pop.induct) auto


section \<open>Properties of the document model\<close>

lemma lookup_set_prop: "lookup (set_prop ps k v) k' = (if k' = k then v else lookup ps k')"
  by (induction ps) (auto simp: lookup_def)

lemma or_js_undefined: "or_js JUndefined d = d"
  by (simp add: or_js_def)

lemma getDocument_step_keeps:
  assumes "lookup doc wn = v"
    and "n \<in> set (Object_keys (field this ''MEMBER_MAP'')) \<Longrightarrow> truthy (field this n) \<Longrightarrow>
           toString_js (field (field this ''MEMBER_MAP'') n) = wn \<Longrightarrow> field this n = v"
  shows "lookup (getDocument_step this n doc) wn = v"
proof (cases "n \<in> set (Object_keys (field this ''MEMBER_MAP'')) \<and> truthy (field this n)")
  case True
  note written = this
  show ?thesis
  proof (cases "toString_js (field (field this ''MEMBER_MAP'') n) = wn")
    case True
    with written assms(2) have "field this n = v" by blast
    then show ?thesis
      using True assms(1) by (simp add: getDocument_step_def lookup_set_prop)
  next
    case False
    then show ?thesis
      using assms(1) by (simp add: getDocument_step_def lookup_set_prop)
  qed
next
  case False
  then show ?thesis using assms(1) by (auto simp: getDocument_step_def)
qed

lemma fold_getDocument_step_keeps:
  "lookup doc wn = v \<Longrightarrow>
   \<forall>n \<in> set names. n \<in> set (Object_keys (field this ''MEMBER_MAP'')) \<longrightarrow> truthy (field this n) \<longrightarrow>
           toString_js (field (field this ''MEMBER_MAP'') n) = wn \<longrightarrow> field this n = v \<Longrightarrow>
   lookup (fold (getDocument_step this) names doc) wn = v"
proof (induction names arbitrary: doc)
  case Nil
  then show ?case by simp
next
  case (Cons n names)
  have "lookup (getDocument_step this n doc) wn = v"
    by (rule getDocument_step_keeps) (use Cons.prems in simp_all)
  moreover have "\<forall>n \<in> set names. n \<in> set (Object_keys (field this ''MEMBER_MAP'')) \<longrightarrow>
           truthy (field this n) \<longrightarrow>
           toString_js (field (field this ''MEMBER_MAP'') n) = wn \<longrightarrow> field this n = v"
    using Cons.prems(2) by simp
  ultimately have "lookup (fold (getDocument_step this) names (getDocument_step this n doc)) wn = v"
    by (rule Cons.IH)
  then show ?case by simp
qed

lemma fold_getDocument_step_writes:
  "m \<in> set names \<Longrightarrow>
   m \<in> set (Object_keys (field this ''MEMBER_MAP'')) \<Longrightarrow>
   truthy (field this m) \<Longrightarrow>
   toString_js (field (field this ''MEMBER_MAP'') m) = wn \<Longrightarrow>
   \<forall>n \<in> set names. n \<in> set (Object_keys (field this ''MEMBER_MAP'')) \<longrightarrow>
           toString_js (field (field this ''MEMBER_MAP'') n) = wn \<longrightarrow> n = m \<Longrightarrow>
   lookup (fold (getDocument_step this) names doc) wn = field this m"
proof (induction names arbitrary: doc)
  case Nil
  from Nil(1) show ?case by simp
next
  case (Cons n names)
  have inj: "\<forall>n \<in> set names. n \<in> set (Object_keys (field this ''MEMBER_MAP'')) \<longrightarrow>
           toString_js (field (field this ''MEMBER_MAP'') n) = wn \<longrightarrow> n = m"
    using Cons.prems(5) by simp
  show ?case
  proof (cases "n = m")
    case True
    have "lookup (getDocument_step this m doc) wn = field this m"
      using Cons.prems(2,3,4) by (simp add: getDocument_step_def lookup_set_prop)
    moreover have "\<forall>n \<in> set names. n \<in> set (Object_keys (field this ''MEMBER_MAP'')) \<longrightarrow>
           truthy (field this n) \<longrightarrow>
           toString_js (field (field this ''MEMBER_MAP'') n) = wn \<longrightarrow> field this n = field this m"
      using inj by auto
    ultimately have
      "lookup (fold (getDocument_step this) names (getDocument_step this m doc)) wn = field this m"
      by (rule fold_getDocument_step_keeps)
    then show ?thesis unfolding True by simp
  next
    case False
    then have "m \<in> set names" using Cons.prems(1) by simp
    then have "lookup (fold (getDocument_step this) names (getDocument_step this n doc)) wn = field this m"
      using Cons.prems(2,3,4) inj by (rule Cons.IH)
    then show ?thesis by simp
  qed
qed

lemma members_keys:
  "map fst (ObjectAttributeDefinition_members vd args) =
     [''MEMBER_MAP'', ''defaultValue'', ''description'', ''displayName'', ''effectiveId'',
      ''externallyDefined'', ''externallyManaged'', ''fieldHeight'', ''fieldWidth'', ''id'',
      ''key'', ''link'', ''localizable'', ''mandatory'', ''maxValue'', ''minLength'',
      ''minValue'', ''multiValueType'', ''orderRequired'', ''queryable'', ''readOnly'',
      ''regularExpression'', ''requiresEncoding'', ''scale'', ''searchable'', ''setValueType'',
      ''siteSpecific'', ''system'', ''unit'', ''valueDefinitions'', ''valueType'', ''visible'',
      ''includedFields'']"
  by (simp add: ObjectAttributeDefinition_members_def)

lemma members_MEMBER_MAP:
  "lookup (ObjectAttributeDefinition_members vd args) ''MEMBER_MAP'' =
     JObj (map (\<lambda>(m, w). (m, JStr w)) MEMBER_MAP)"
  by (simp add: ObjectAttributeDefinition_members_def lookup_def)

lemma members_includedFields:
  "lookup (ObjectAttributeDefinition_members vd args) ''includedFields'' =
     or_js (field args ''includeFields'') (JArr [])"
  by (simp add: ObjectAttributeDefinition_members_def lookup_def)

lemma members_localized:
  "lookup (ObjectAttributeDefinition_members vd args) ''description'' =
     or_js (field args ''description'') localized_default"
  "lookup (ObjectAttributeDefinition_members vd args) ''displayName'' =
     or_js (field args ''display_name'') localized_default"
  "lookup (ObjectAttributeDefinition_members vd args) ''unit'' =
     or_js (field args ''unit'') localized_default"
  by (simp_all add: ObjectAttributeDefinition_members_def lookup_def)

lemma members_mapped_all:
  "list_all (\<lambda>(m, wn). m = ''defaultValue'' \<or>
      lookup (ObjectAttributeDefinition_members vd args) m =
        or_js (field args wn) (lookup (ObjectAttributeDefinition_members vd (JObj [])) m))
    MEMBER_MAP"
  by (simp add: MEMBER_MAP_def ObjectAttributeDefinition_members_def lookup_def or_js_undefined)

lemma MEMBER_MAP_keys_distinct: "distinct (map fst MEMBER_MAP)"
  by (simp add: MEMBER_MAP_def)

lemma MEMBER_MAP_wire_distinct: "distinct (map snd MEMBER_MAP)"
  by (simp add: MEMBER_MAP_def)

lemma MEMBER_MAP_lookup:
  assumes "(m, wn) \<in> set MEMBER_MAP"
  shows "lookup (map (\<lambda>(m, w). (m, JStr w)) MEMBER_MAP) m = JStr wn"
proof -
  have "map_of MEMBER_MAP m = Some wn"
    using MEMBER_MAP_keys_distinct assms by (rule map_of_is_SomeI)
  then show ?thesis by (simp add: lookup_def map_of_map)
qed

lemma MEMBER_MAP_lookup_inv:
  assumes "n \<in> fst ` set MEMBER_MAP"
    and "toString_js (lookup (map (\<lambda>(m, w). (m, JStr w)) MEMBER_MAP) n) = wn"
  shows "(n, wn) \<in> set MEMBER_MAP"
proof -
  from assms(1) obtain w where w: "(n, w) \<in> set MEMBER_MAP" by auto
  then have "lookup (map (\<lambda>(m, w). (m, JStr w)) MEMBER_MAP) n = JStr w"
    by (rule MEMBER_MAP_lookup)
  then have "w = wn" using assms(2) by simp
  then show ?thesis using w by simp
qed

lemma MEMBER_MAP_wire_inj:
  assumes "(n, wn) \<in> set MEMBER_MAP" "(m, wn) \<in> set MEMBER_MAP"
  shows "n = m"
proof -
  have "distinct (map fst (map (\<lambda>(a, b). (b, a)) MEMBER_MAP))"
    using MEMBER_MAP_wire_distinct by (simp add: comp_def case_prod_unfold)
  moreover have "(wn, n) \<in> set (map (\<lambda>(a, b). (b, a)) MEMBER_MAP)"
    and "(wn, m) \<in> set (map (\<lambda>(a, b). (b, a)) MEMBER_MAP)"
    using assms by force+
  ultimately show ?thesis by (metis map_of_is_SomeI option.inject)
qed

lemma members_mapped:
  assumes "(m, wn) \<in> set MEMBER_MAP" "m \<noteq> ''defaultValue''" "truthy (field args wn)"
  shows "lookup (ObjectAttributeDefinition_members vd args) m = field args wn"
proof -
  have "m = ''defaultValue'' \<or>
      lookup (ObjectAttributeDefinition_members vd args) m =
        or_js (field args wn) (lookup (ObjectAttributeDefinition_members vd (JObj [])) m)"
    using members_mapped_all [of vd args] assms(1) unfolding list_all_iff by blast
  then show ?thesis using assms(2,3) by (simp add: or_js_def)
qed

text \<open>
  Claim C7 says that a raw wire object, parsed into an \<open>ObjectAttributeDefinition\<close>
  and projected back by \<open>getDocument\<close> with no field restriction, keeps under its
  wire name every field that \<open>MEMBER_MAP\<close> maps and that the input had. The code does
  not do so. From the wire object \<open>{value_type: "string", externally_defined: false}\<close>
  it builds a document without \<open>externally_defined\<close>: a mapped member is written only
  when its value is truthy, and a member that \<open>MEMBER_MAP\<close> does not name is never
  written (the loop computes its \<open>{key, value}\<close> and drops it). The document holds
  \<open>value_type\<close> and the truthy defaults of members the wire object never had.
\<close>

theorem getDocument_drops_false_flag:
  "new_ObjectAttributeDefinition no_members
     (JObj [(''value_type'', JStr ''string''), (''externally_defined'', JBool False)]) =
   Inr (JInst ''ObjectAttributeDefinition''
         (ObjectAttributeDefinition_members no_members
           (JObj [(''value_type'', JStr ''string''), (''externally_defined'', JBool False)]))) \<and>
   getDocument_documentObj
     (JInst ''ObjectAttributeDefinition''
       (ObjectAttributeDefinition_members no_members
         (JObj [(''value_type'', JStr ''string''), (''externally_defined'', JBool False)]))) [] =
   Inr [(''default_value'', JInst ''ObjectAttributeValueDefinition'' []),
        (''display_name'', JObj [(''default'', JStr [])]),
        (''field_height'', JNum (- 1)), (''field_width'', JNum (- 1)),
        (''min_length'', JNum (- 1)), (''value_definitions'', JArr []),
        (''value_type'', JStr ''string'')]"
  by code_simp

text \<open>What the projection does keep: with no field restriction, every field that
  \<open>MEMBER_MAP\<close> maps, other than \<open>default_value\<close>, whose wire value is truthy, is in
  the document under its wire name with the wire value unchanged.\<close>

lemma getDocument_reproduces_truthy_mapped_fields:
  assumes "(m, wn) \<in> set MEMBER_MAP"
    and "m \<noteq> ''defaultValue''"
    and "truthy (lookup wire wn)"
    and "or_js (lookup wire ''includeFields'') (JArr []) = JArr []"
  shows "\<exists>inst doc.
           new_ObjectAttributeDefinition vd (JObj wire) = Inr inst \<and>
           field inst ''includedFields'' = JArr [] \<and>
           getDocument_documentObj inst [] = Inr doc \<and>
           lookup doc wn = lookup wire wn"
proof -
  let ?ms = "ObjectAttributeDefinition_members vd (JObj wire)"
  let ?inst = "JInst ''ObjectAttributeDefinition'' ?ms"
  have new: "new_ObjectAttributeDefinition vd (JObj wire) = Inr ?inst"
    by (simp add: new_ObjectAttributeDefinition_def)
  have incl: "field ?inst ''includedFields'' = JArr []"
    using assms(4) by (simp add: members_includedFields)
  have mm: "field ?inst ''MEMBER_MAP'' = JObj (map (\<lambda>(m, w). (m, JStr w)) MEMBER_MAP)"
    by (simp add: members_MEMBER_MAP)
  have mmkeys: "set (Object_keys (field ?inst ''MEMBER_MAP'')) = fst ` set MEMBER_MAP"
    unfolding mm by (force simp: image_iff)
  have names: "getDocument_memberNames ?inst [] = Inr (map fst ?ms)"
    unfolding getDocument_memberNames_def incl by (simp add: get_def)
  have m_in: "m \<in> set (map fst ?ms)"
    using assms(1) unfolding members_keys MEMBER_MAP_def by auto
  have val: "field ?inst m = lookup wire wn"
    using members_mapped [OF assms(1,2), of "JObj wire" vd] assms(3) by simp
  have "lookup (fold (getDocument_step ?inst) (map fst ?ms) []) wn = field ?inst m"
  proof (rule fold_getDocument_step_writes [OF m_in])
    show "m \<in> set (Object_keys (field ?inst ''MEMBER_MAP''))"
      unfolding mmkeys using assms(1) by force
    show "truthy (field ?inst m)" unfolding val by (rule assms(3))
    show "toString_js (field (field ?inst ''MEMBER_MAP'') m) = wn"
      unfolding mm using MEMBER_MAP_lookup [OF assms(1)] by simp
    show "\<forall>n\<in>set (map fst ?ms). n \<in> set (Object_keys (field ?inst ''MEMBER_MAP'')) \<longrightarrow>
            toString_js (field (field ?inst ''MEMBER_MAP'') n) = wn \<longrightarrow> n = m"
    proof (intro ballI impI)
      fix n
      assume a1: "n \<in> set (Object_keys (field ?inst ''MEMBER_MAP''))"
        and a2: "toString_js (field (field ?inst ''MEMBER_MAP'') n) = wn"
      from a1 have "n \<in> fst ` set MEMBER_MAP" unfolding mmkeys .
      moreover from a2 have "toString_js (lookup (map (\<lambda>(m, w). (m, JStr w)) MEMBER_MAP) n) = wn"
        unfolding mm by simp
      ultimately have "(n, wn) \<in> set MEMBER_MAP" by (rule MEMBER_MAP_lookup_inv)
      then show "n = m" using assms(1) by (rule MEMBER_MAP_wire_inj)
    qed
  qed
  then have "lookup (fold (getDocument_step ?inst) (map fst ?ms) []) wn = lookup wire wn"
    unfolding val .
  then show ?thesis
    using new incl names unfolding getDocument_documentObj_def by simp
qed

text \<open>An instance: the wire object \<open>{id: "a2", value_type: "enum_of_int"}\<close> and the
  mapped member \<open>valueType\<close>.\<close>

lemma getDocument_reproduces_truthy_mapped_fields_example:
  "(''valueType'', ''value_type'') \<in> set MEMBER_MAP \<and>
   truthy (lookup [(''id'', JStr ''a2''), (''value_type'', JStr ''enum_of_int'')] ''value_type'') \<and>
   (\<exists>inst doc.
      new_ObjectAttributeDefinition no_members
        (JObj [(''id'', JStr ''a2''), (''value_type'', JStr ''enum_of_int'')]) = Inr inst \<and>
      getDocument_documentObj inst [] = Inr doc \<and>
      lookup doc ''value_type'' = JStr ''enum_of_int'')"
proof -
  have a: "(''valueType'', ''value_type'') \<in> set MEMBER_MAP" by (simp add: MEMBER_MAP_def)
  have b: "''valueType'' \<noteq> ''defaultValue''" by simp
  have c: "truthy (lookup [(''id'', JStr ''a2''), (''value_type'', JStr ''enum_of_int'')] ''value_type'')"
    by (simp add: lookup_def)
  have d: "or_js (lookup [(''id'', JStr ''a2''), (''value_type'', JStr ''enum_of_int'')] ''includeFields'')
             (JArr []) = JArr []"
    by (simp add: lookup_def or_js_def)
  have e: "lookup [(''id'', JStr ''a2''), (''value_type'', JStr ''enum_of_int'')] ''value_type'' =
             JStr ''enum_of_int''"
    by (simp add: lookup_def)
  show ?thesis
    using a c getDocument_reproduces_truthy_mapped_fields [OF a b c d, of no_members]
    unfolding e by blast
qed

text \<open>
  Claim C9, as amended. For every raw wire object, each of the members
  \<open>description\<close>, \<open>displayName\<close> and \<open>unit\<close> of the constructed
  \<open>ObjectAttributeDefinition\<close> is the wire value when that value is truthy and the
  object \<open>{default: ''}\<close> otherwise; it is never \<open>null\<close> or \<open>undefined\<close>.
\<close>

theorem localized_members_never_absent:
  "\<exists>ms. new_ObjectAttributeDefinition vd (JObj wire) = Inr (JInst ''ObjectAttributeDefinition'' ms) \<and>
     lookup ms ''description'' = or_js (lookup wire ''description'') (JObj [(''default'', JStr [])]) \<and>
     lookup ms ''displayName'' = or_js (lookup wire ''display_name'') (JObj [(''default'', JStr [])]) \<and>
     lookup ms ''unit'' = or_js (lookup wire ''unit'') (JObj [(''default'', JStr [])]) \<and>
     \<not> nullish (lookup ms ''description'') \<and>
     \<not> nullish (lookup ms ''displayName'') \<and>
     \<not> nullish (lookup ms ''unit'')"
proof -
  have t: "\<not> nullish (or_js v (JObj [(''default'', JStr [])]))" for v
    by (cases v) (simp_all add: or_js_def)
  show ?thesis
    by (simp add: new_ObjectAttributeDefinition_def members_localized localized_default_def t)
qed

text \<open>Counterexample to C9 as stated: the wire object \<open>{description: {en: "x"}}\<close>
  gives a \<open>description\<close> member that is the wire value, an object with no \<open>default\<close>
  entry.\<close>

theorem localized_member_without_default_entry:
  "new_ObjectAttributeDefinition no_members (JObj [(''description'', JObj [(''en'', JStr ''x'')])]) =
     Inr (JInst ''ObjectAttributeDefinition''
           (ObjectAttributeDefinition_members no_members
             (JObj [(''description'', JObj [(''en'', JStr ''x'')])]))) \<and>
   lookup (ObjectAttributeDefinition_members no_members
            (JObj [(''description'', JObj [(''en'', JStr ''x'')])])) ''description'' =
     JObj [(''en'', JStr ''x'')] \<and>
   field (JObj [(''en'', JStr ''x'')]) ''default'' = JUndefined"
  by code_simp

section \<open>Properties of the tree materializer\<close>

text \<open>
  Claim C10. When the node of the System or Custom Object Definitions category is
  expanded and the call result has no \<open>data\<close> field, or one that is not an array,
  \<open>getBaseNodeChildren\<close> resolves to \<open>undefined\<close>: neither a fallback node nor an
  empty list.
\<close>

theorem getBaseNodeChildren_undefined_without_data:
  assumes "node_prop element ''baseNodeName'' = JStr baseName"
    and "baseName = ''systemObjectDefinitions'' \<or> baseName = ''customObjectDefinitions''"
    and "service (JStr baseName) ''getAll'' (JObj [(''count'', JNum 500), (''select'', JStr ''(**)'')])
           = Inr (JObj callResult)"
    and "\<not> isArray (lookup callResult ''data'')"
  shows "getBaseNodeChildren otd ag service element = Inr None"
proof -
  have "JStr baseName \<noteq> JStr ''sitePreferences''" using assms(2) by auto
  then show ?thesis
    using assms(1,3,4) by (simp add: getBaseNodeChildren_def get_def)
qed

text \<open>Witness of C10: the System Object Definitions node and the response
  \<open>{count: 0}\<close>.\<close>

theorem getBaseNodeChildren_undefined_without_data_witness:
  "node_prop node_systemObjectDefinitions ''baseNodeName'' = JStr ''systemObjectDefinitions'' \<and>
   \<not> isArray (lookup [(''count'', JNum 0)] ''data'') \<and>
   getBaseNodeChildren no_members no_members service_empty node_systemObjectDefinitions = Inr None"
proof -
  have a: "node_prop node_systemObjectDefinitions ''baseNodeName'' = JStr ''systemObjectDefinitions''"
    by (simp add: node_prop_def node_systemObjectDefinitions_def lookup_def)
  have b: "''systemObjectDefinitions'' = ''systemObjectDefinitions'' \<or>
           ''systemObjectDefinitions'' = ''customObjectDefinitions''" by simp
  have c: "service_empty (JStr ''systemObjectDefinitions'') ''getAll''
             (JObj [(''count'', JNum 500), (''select'', JStr ''(**)'')]) = Inr (JObj [(''count'', JNum 0)])"
    by (simp add: service_empty_def)
  have d: "\<not> isArray (lookup [(''count'', JNum 0)] ''data'')" by (simp add: lookup_def)
  show ?thesis
    using a d
      getBaseNodeChildren_undefined_without_data
        [where service = service_empty and otd = no_members and ag = no_members, OF a b c d]
    by simp
qed

text \<open>
  Claim C4. Expanding the Attribute Groups container, with a response that is an error
  or has no \<open>data\<close> array, yields exactly one child, which is not expandable: it is
  labeled "No attribute groups defined" when the response is not an error and carries
  \<open>count\<close> equal to 0, and "Unable to load..." otherwise. No fault is raised and the
  list is not empty.
\<close>

theorem attribute_groups_fallback_leaf:
  assumes "name element = JStr ''Attribute Groups''"
    and "node_prop element ''parentId'' = JStr parentId"
    and "objectType = fst (pop (split_on CHR ''.'' parentId))"
    and "service (JStr ''systemObjectDefinitions'') ''getAttributeGroups''
           (JObj [(''select'', JStr ''(**)''), (''count'', JNum 150),
                  (''expand'', JStr ''definition''), (''objectType'', objectType)])
         = Inr (JObj callResult)"
    and "truthy (lookup callResult ''error'') \<or> \<not> isArray (lookup callResult ''data'')"
  shows "\<exists>child.
           getAttributeOrGroupContainerChildren vd ag service element = Inr [child] \<and>
           \<not> expandable child \<and>
           name child =
             JStr (if \<not> truthy (lookup callResult ''error'') \<and> lookup callResult ''count'' = JNum 0
                   then ''No attribute groups defined'' else ''Unable to load...'')"
proof -
  have "getAttributeOrGroupContainerChildren vd ag service element =
          Inr [leaf (if \<not> truthy (lookup callResult ''error'') \<and> lookup callResult ''count'' = JNum 0
                     then ''No attribute groups defined'' else ''Unable to load...'')
                 (parentId @ ''.'' @ toString_js objectType)]"
    using assms by (auto simp: getAttributeOrGroupContainerChildren_def get_def Let_def)
  then show ?thesis by (simp add: leaf_def expandable_def)
qed

text \<open>Witness of C4: the Attribute Groups container of \<open>Product\<close>, with the response
  \<open>{count: 0}\<close> and with the response \<open>{error: true, fault: {}}\<close>.\<close>

theorem attribute_groups_fallback_leaf_witness:
  "name node_attributeGroups = JStr ''Attribute Groups'' \<and>
   \<not> isArray (lookup [(''count'', JNum 0)] ''data'') \<and>
   truthy (lookup [(''error'', JBool True), (''fault'', JObj [])] ''error'') \<and>
   (\<exists>child.
      getAttributeOrGroupContainerChildren no_members no_members service_empty node_attributeGroups
        = Inr [child] \<and>
      \<not> expandable child \<and> name child = JStr ''No attribute groups defined'') \<and>
   (\<exists>child.
      getAttributeOrGroupContainerChildren no_members no_members service_failing node_attributeGroups
        = Inr [child] \<and>
      \<not> expandable child \<and> name child = JStr ''Unable to load...'')"
proof -
  have a: "name node_attributeGroups = JStr ''Attribute Groups''"
    by (simp add: node_attributeGroups_def)
  have b: "node_prop node_attributeGroups ''parentId'' = JStr ''root.systemObjectDefinitions.Product''"
    by (simp add: node_prop_def node_attributeGroups_def lookup_def)
  have c: "JStr ''Product'' = fst (pop (split_on CHR ''.'' ''root.systemObjectDefinitions.Product''))"
    by code_simp
  have d1: "service_empty (JStr ''systemObjectDefinitions'') ''getAttributeGroups''
           (JObj [(''select'', JStr ''(**)''), (''count'', JNum 150),
                  (''expand'', JStr ''definition''), (''objectType'', JStr ''Product'')])
         = Inr (JObj [(''count'', JNum 0)])"
    by (simp add: service_empty_def)
  have d2: "service_failing (JStr ''systemObjectDefinitions'') ''getAttributeGroups''
           (JObj [(''select'', JStr ''(**)''), (''count'', JNum 150),
                  (''expand'', JStr ''definition''), (''objectType'', JStr ''Product'')])
         = Inr (JObj [(''error'', JBool True), (''fault'', JObj [])])"
    by (simp add: service_failing_def)
  have e1: "\<not> isArray (lookup [(''count'', JNum 0)] ''data'')" by (simp add: lookup_def)
  have e2: "truthy (lookup [(''error'', JBool True), (''fault'', JObj [])] ''error'')"
    by (simp add: lookup_def)
  have f1: "truthy (lookup [(''count'', JNum 0)] ''error'') \<or>
            \<not> isArray (lookup [(''count'', JNum 0)] ''data'')" using e1 by simp
  have f2: "truthy (lookup [(''error'', JBool True), (''fault'', JObj [])] ''error'') \<or>
            \<not> isArray (lookup [(''error'', JBool True), (''fault'', JObj [])] ''data'')"
    using e2 by simp
  have g1: "(if \<not> truthy (lookup [(''count'', JNum 0)] ''error'') \<and>
                lookup [(''count'', JNum 0)] ''count'' = JNum 0
             then ''No attribute groups defined'' else ''Unable to load...'') =
            ''No attribute groups defined''"
    by (simp add: lookup_def)
  have g2: "(if \<not> truthy (lookup [(''error'', JBool True), (''fault'', JObj [])] ''error'') \<and>
                lookup [(''error'', JBool True), (''fault'', JObj [])] ''count'' = JNum 0
             then ''No attribute groups defined'' else ''Unable to load...'') =
            ''Unable to load...''"
    by (simp add: lookup_def)
  note r1 = attribute_groups_fallback_leaf
      [where service = service_empty and vd = no_members and ag = no_members,
       OF a b c d1 f1, unfolded g1]
  note r2 = attribute_groups_fallback_leaf
      [where service = service_failing and vd = no_members and ag = no_members,
       OF a b c d2 f2, unfolded g2]
  show ?thesis using a e1 e2 r1 r2 by blast
qed

text \<open>The sibling strategy for the Site Preferences category,
  \<open>getAllPreferences\<close>, has the first fallback only: on the response \<open>{count: 0}\<close>
  it gives the leaf, on an error response it returns \<open>undefined\<close>.\<close>

lemma getAllPreferences_fallbacks:
  "getAllPreferences no_members service_empty =
     Inr (Some [leaf ''No attribute groups defined'' ''sitePreferences''])"
  "getAllPreferences no_members service_failing = Inr None"
  by code_simp+
text \<open>
  Claim C5 says that expanding an \<open>objectTypeDefinition\<close> node returns the two
  \<open>parentContainer\<close> children "Attribute Definitions" and "Attribute Groups" with the
  pre-fetched counts, and that under the custom-object-definitions lineage the
  Attribute Groups node is non-expandable while the Attribute Definitions node remains
  expandable. The code does not keep the last part. For an object type under
  \<open>root.customObjectDefinitions\<close> with 12 attribute definitions and 3 attribute groups,
  the two children have the labels and the counts, but the Attribute Definitions node
  is built with \<open>TreeItemCollapsibleState.None\<close>, like the Attribute Groups node: the
  one test on the lineage does not look at the container.
\<close>

theorem custom_object_definitions_not_expandable:
  "getObjectDefinitionChildren (node_objectType ''root.customObjectDefinitions'') =
     Inr [\<lparr>name = JStr ''Attribute Definitions'',
            collapsibleState = TreeItemCollapsibleState_None,
            nodeData =
              [(''displayDescription'', JStr ''12''),
               (''parentContainer'', JStr ''objectAttributeDefinitions''),
               (''parentId'', JStr ''root.customObjectDefinitions.Basket'')]\<rparr>,
          \<lparr>name = JStr ''Attribute Groups'',
            collapsibleState = TreeItemCollapsibleState_None,
            nodeData =
              [(''displayDescription'', JStr ''3''),
               (''parentContainer'', JStr ''objectAttributeGroups''),
               (''parentId'', JStr ''root.customObjectDefinitions.Basket'')]\<rparr>] \<and>
   \<not> expandable
        \<lparr>name = JStr ''Attribute Definitions'',
          collapsibleState = TreeItemCollapsibleState_None,
          nodeData =
            [(''displayDescription'', JStr ''12''),
             (''parentContainer'', JStr ''objectAttributeDefinitions''),
             (''parentId'', JStr ''root.customObjectDefinitions.Basket'')]\<rparr>"
  by code_simp

text \<open>The same object type under \<open>root.systemObjectDefinitions\<close>: both children are
  collapsed, hence expandable.\<close>

lemma system_object_definitions_expandable:
  "getObjectDefinitionChildren (node_objectType ''root.systemObjectDefinitions'') =
     Inr [\<lparr>name = JStr ''Attribute Definitions'',
            collapsibleState = TreeItemCollapsibleState_Collapsed,
            nodeData =
              [(''displayDescription'', JStr ''12''),
               (''parentContainer'', JStr ''objectAttributeDefinitions''),
               (''parentId'', JStr ''root.systemObjectDefinitions.Basket'')]\<rparr>,
          \<lparr>name = JStr ''Attribute Groups'',
            collapsibleState = TreeItemCollapsibleState_Collapsed,
            nodeData =
              [(''displayDescription'', JStr ''3''),
               (''parentContainer'', JStr ''objectAttributeGroups''),
               (''parentId'', JStr ''root.systemObjectDefinitions.Basket'')]\<rparr>]"
  by code_simp

text \<open>
  The strategy that would expand the Attribute Definitions container serves the custom
  lineage: it takes the resource of its request from the lineage. For the container
  built above, a service that answers with the resource name it was asked for is asked
  for \<open>customObjectDefinitions\<close>. The container being non-expandable, the provider
  never calls the strategy for it.
\<close>

lemma attribute_branch_requests_custom_resource:
  "getAttributeOrGroupContainerChildren no_members no_members service_echo
     node_customAttributeDefinitions =
     Inr [\<lparr>name = JStr ''customObjectDefinitions'',
            collapsibleState = TreeItemCollapsibleState_Collapsed,
            nodeData =
              [(''parentId'', JStr ''root.customObjectDefinitions.Basket.Basket''),
               (''objectAttributeDefinition'',
                  JInst ''ObjectAttributeDefinition''
                    (ObjectAttributeDefinition_members no_members
                       (JObj [(''id'', JStr ''customObjectDefinitions'')]))),
               (''displayDescription'', JStr [])]\<rparr>]"
  by code_simp



section \<open>Properties of the export serializer\<close>

lemma lower_string: "toLocaleLowerCase (JStr ''string'') = Inr ''string''"
  by code_simp

lemma named_ele3:
  "concat (map (elements_named nm) (ele3 nm' as t)) = (if nm = nm' then ele3 nm' as t else [])"
  by (simp add: ele3_def)

lemma named_ele2:
  "concat (map (elements_named nm) (ele2 nm' x)) = (if nm = nm' then ele2 nm' x else [])"
  by (simp add: ele2_def ele3_def)

lemma named_defaultValue:
  "concat (map (elements_named nm) (defaultValue_children a)) =
     (if nm = ''default-value'' then defaultValue_children a else [])"
proof (cases "truthy (field a ''defaultValue'')")
  case True
  then show ?thesis by (simp only: defaultValue_children_def if_True named_ele2)
next
  case False
  then show ?thesis by (simp add: defaultValue_children_def)
qed

text \<open>
  Claim C8. Serializing a node that carries an attribute definition with value type
  \<open>string\<close>, id \<open>myAttr\<close> and \<open>mandatory\<close> true, whose lineage ends in
  \<open>Product\<close>, gives a document whose root \<open>metadata\<close> carries the namespace
  \<open>http://www.demandware.com/xml/impex/metadata/2006-10-31\<close>; the \<open>type-id\<close> of its
  \<open>type-extension\<close> is the last dot-separated segment of the node's \<open>parentId\<close>;
  inside it, the element \<open>attribute-definition\<close> has \<open>attribute-id="myAttr"\<close>, one
  \<open>type\<close> element with text \<open>string\<close>, one \<open>mandatory-flag\<close> element with text
  \<open>true\<close>, a \<open>min-length\<close> element, a \<open>localizable-flag\<close> element, and no
  \<open>value-definitions\<close> element. The attribute's localized names are objects, its
  \<open>minLength\<close> a number and its \<open>localizable\<close> a boolean, as the class declares.
\<close>

theorem product_string_attribute_xml:
  assumes "nodeType metaNode = ''objectAttributeDefinition''"
    and "node_prop metaNode ''parentId'' = JStr parentId"
    and "last (split_on CHR ''.'' parentId) = ''Product''"
    and "node_prop metaNode ''objectAttributeDefinition'' = JInst c ms"
    and "lookup ms ''valueType'' = JStr ''string''"
    and "lookup ms ''id'' = JStr ''myAttr''"
    and "lookup ms ''mandatory'' = JBool True"
    and "lookup ms ''displayName'' = JObj displayName"
    and "lookup ms ''description'' = JObj description"
    and "lookup ms ''minLength'' = JNum minLength"
    and "lookup ms ''localizable'' = JBool localizable"
  shows "\<exists>children.
           getXMLFromNode metaNode =
             Inr (Element ''metadata'' [(''xmlns'', ''http://www.demandware.com/xml/impex/metadata/2006-10-31'')]
                   [Element ''type-extension'' [(''type-id'', last (split_on CHR ''.'' parentId))]
                      [Element ''custom-attribute-definitions'' []
                         [Element ''attribute-definition'' [(''attribute-id'', ''myAttr'')] children]]]) \<and>
           concat (map (elements_named ''type'') children) = [Element ''type'' [] [Text ''string'']] \<and>
           concat (map (elements_named ''mandatory-flag'') children) =
             [Element ''mandatory-flag'' [] [Text ''true'']] \<and>
           concat (map (elements_named ''min-length'') children) =
             [Element ''min-length'' [] [Text (string_of_int minLength)]] \<and>
           concat (map (elements_named ''localizable-flag'') children) =
             [Element ''localizable-flag'' [] [Text (if localizable then ''true'' else ''false'')]] \<and>
           concat (map (elements_named ''value-definitions'') children) = []"
proof -
  let ?a = "JInst c ms"
  let ?children =
    "ele3 ''display-name'' [(''xml:lang'', ''x-default'')] (lookup displayName ''default'')
     @ ele3 ''description'' [(''xml:lang'', ''x-default'')] (lookup description ''default'')
     @ ele2 ''type'' (JStr ''string'')
     @ ele2 ''mandatory-flag'' (JBool True)
     @ ele2 ''externally-managed-flag'' (lookup ms ''externallyManaged'')
     @ ele_object [(''min-length'', JNum minLength)]
     @ objectType_children (JStr ''Product'') ?a"
  have sot: "fst (pop (split_on CHR ''.'' parentId)) = JStr ''Product''"
    using pop_last [OF split_on_not_Nil, of "CHR ''.''" parentId] assms(3) by simp
  have typed: "valueType_children ?a ''string'' = Inr (ele_object [(''min-length'', JNum minLength)])"
    using assms(10) by (simp add: valueType_children_def)
  have attr: "getObjectAttributeXML (JStr ''Product'') ?a =
      Inr (Element ''type-extension'' [(''type-id'', ''Product'')]
             [Element ''custom-attribute-definitions'' []
                [Element ''attribute-definition'' [(''attribute-id'', ''myAttr'')] ?children]])"
    using assms(5,6,7,8,9)
    by (simp add: getObjectAttributeXML_def get_def lower_string typed attribute_entry_def
          del: toLocaleLowerCase.simps)
  have doc: "getXMLFromNode metaNode =
      Inr (Element ''metadata'' [(''xmlns'', ''http://www.demandware.com/xml/impex/metadata/2006-10-31'')]
             [Element ''type-extension'' [(''type-id'', last (split_on CHR ''.'' parentId))]
                [Element ''custom-attribute-definitions'' []
                   [Element ''attribute-definition'' [(''attribute-id'', ''myAttr'')] ?children]]])"
    using assms(1,2,3,4) by (simp add: getXMLFromNode_def sot attr NAMESPACE_STRING_def)
  have owned: "objectType_children (JStr ''Product'') ?a =
       ele2 ''localizable-flag'' (JBool localizable)
       @ ele2 ''site-specific-flag'' (lookup ms ''siteSpecific'')
       @ ele2 ''visible-flag'' (lookup ms ''visible'')
       @ ele2 ''order-required-flag'' (lookup ms ''orderRequired'')
       @ ele2 ''externally-defined-flag'' (lookup ms ''externallyDefined'')
       @ defaultValue_children ?a"
    using assms(11) by (simp add: objectType_children_def)
  have minl: "ele_object [(''min-length'', JNum minLength)] =
                [Element ''min-length'' [] [Text (string_of_int minLength)]]"
    by (simp add: ele_object_def ele3_def)
  have e_type: "ele2 ''type'' (JStr ''string'') = [Element ''type'' [] [Text ''string'']]"
    by (simp add: ele2_def ele3_def)
  have e_mand: "ele2 ''mandatory-flag'' (JBool True) = [Element ''mandatory-flag'' [] [Text ''true'']]"
    by (simp add: ele2_def ele3_def)
  have e_loc: "ele2 ''localizable-flag'' (JBool localizable) =
                 [Element ''localizable-flag'' [] [Text (if localizable then ''true'' else ''false'')]]"
    by (simp add: ele2_def ele3_def)
  have n1: "concat (map (elements_named ''type'') ?children) = [Element ''type'' [] [Text ''string'']]"
    unfolding owned minl by (simp add: named_ele3 named_ele2 named_defaultValue e_type)
  have n2: "concat (map (elements_named ''mandatory-flag'') ?children) =
              [Element ''mandatory-flag'' [] [Text ''true'']]"
    unfolding owned minl by (simp add: named_ele3 named_ele2 named_defaultValue e_mand)
  have n3: "concat (map (elements_named ''min-length'') ?children) =
              [Element ''min-length'' [] [Text (string_of_int minLength)]]"
    unfolding owned minl by (simp add: named_ele3 named_ele2 named_defaultValue)
  have n4: "concat (map (elements_named ''localizable-flag'') ?children) =
              [Element ''localizable-flag'' [] [Text (if localizable then ''true'' else ''false'')]]"
    unfolding owned minl by (simp add: named_ele3 named_ele2 named_defaultValue e_loc)
  have n5: "concat (map (elements_named ''value-definitions'') ?children) = []"
    unfolding owned minl by (simp add: named_ele3 named_ele2 named_defaultValue)
  show ?thesis
    using doc n1 n2 n3 n4 n5 by blast
qed


text \<open>Witness of C8: the node of the attribute built from the wire object
  \<open>{id: "myAttr", value_type: "string", mandatory: true}\<close> under the lineage
  \<open>root.systemObjectDefinitions.Product.Product\<close>.\<close>

theorem product_string_attribute_xml_witness:
  "nodeType (node_attribute [(''id'', JStr ''myAttr''), (''value_type'', JStr ''string''),
                             (''mandatory'', JBool True)]) = ''objectAttributeDefinition'' \<and>
   last (split_on CHR ''.'' ''root.systemObjectDefinitions.Product.Product'') = ''Product'' \<and>
   (\<exists>children.
      getXMLFromNode (node_attribute [(''id'', JStr ''myAttr''), (''value_type'', JStr ''string''),
                                      (''mandatory'', JBool True)]) =
        Inr (Element ''metadata'' [(''xmlns'', ''http://www.demandware.com/xml/impex/metadata/2006-10-31'')]
              [Element ''type-extension'' [(''type-id'', ''Product'')]
                 [Element ''custom-attribute-definitions'' []
                    [Element ''attribute-definition'' [(''attribute-id'', ''myAttr'')] children]]]) \<and>
      concat (map (elements_named ''type'') children) = [Element ''type'' [] [Text ''string'']] \<and>
      concat (map (elements_named ''mandatory-flag'') children) =
        [Element ''mandatory-flag'' [] [Text ''true'']] \<and>
      concat (map (elements_named ''min-length'') children) =
        [Element ''min-length'' [] [Text ''-1'']] \<and>
      concat (map (elements_named ''localizable-flag'') children) =
        [Element ''localizable-flag'' [] [Text ''false'']] \<and>
      concat (map (elements_named ''value-definitions'') children) = [])"
proof -
  let ?w = "[(''id'', JStr ''myAttr''), (''value_type'', JStr ''string''), (''mandatory'', JBool True)]"
  let ?ms = "ObjectAttributeDefinition_members no_members (JObj ?w)"
  have h1: "nodeType (node_attribute ?w) = ''objectAttributeDefinition''" by code_simp
  have h2: "node_prop (node_attribute ?w) ''parentId'' =
              JStr ''root.systemObjectDefinitions.Product.Product''"
    by (simp add: node_prop_def node_attribute_def lookup_def)
  have h3: "last (split_on CHR ''.'' ''root.systemObjectDefinitions.Product.Product'') = ''Product''"
    by code_simp
  have h4: "node_prop (node_attribute ?w) ''objectAttributeDefinition'' =
              JInst ''ObjectAttributeDefinition'' ?ms"
    by (simp add: node_prop_def node_attribute_def lookup_def)
  have h5: "lookup ?ms ''valueType'' = JStr ''string''" by code_simp
  have h6: "lookup ?ms ''id'' = JStr ''myAttr''" by code_simp
  have h7: "lookup ?ms ''mandatory'' = JBool True" by code_simp
  have h8: "lookup ?ms ''displayName'' = JObj [(''default'', JStr [])]" by code_simp
  have h9: "lookup ?ms ''description'' = JObj [(''default'', JStr [])]" by code_simp
  have h10: "lookup ?ms ''minLength'' = JNum (- 1)" by code_simp
  have h11: "lookup ?ms ''localizable'' = JBool False" by code_simp
  have s: "string_of_int (- 1) = ''-1''" by code_simp
  show ?thesis
    using h1 h3 product_string_attribute_xml [OF h1 h2 h3 h4 h5 h6 h7 h8 h9 h10 h11]
    unfolding h3 s by simp
qed


section \<open>Properties of the call resolver\<close>

lemma availableCalls_throw:
  "list_all (\<lambda>n. getCallSetup_structure apiConfig ''systemObjectDefinitions'' n callData = Inl TypeError)
     (map fst availableCalls)"
  by code_simp

text \<open>
  Claim C1 says that \<open>getCallSetup\<close>, for a resource and call of the catalog and a data
  bag with every required parameter, returns a setup with \<open>setupError\<close> unset and an
  endpoint without braces. The code does not do so: for every call of the catalog,
  whatever the data bag and the connection, \<open>getCallSetup\<close> throws a \<open>TypeError\<close>
  and returns no setup. Every call declares parameters, and the loop over them is
  invoked on the call's configuration object, which has no \<open>forEach\<close>.
\<close>

theorem getCallSetup_throws_on_every_catalog_call:
  assumes "callName' \<in> set (map fst availableCalls)"
  shows "getCallSetup dwConfig found ''systemObjectDefinitions'' callName' callData = Inl TypeError"
proof -
  have "getCallSetup_structure apiConfig ''systemObjectDefinitions'' callName' callData = Inl TypeError"
    using availableCalls_throw [of callData] assms unfolding list_all_iff by blast
  then show ?thesis by (simp add: getCallSetup_def getCallSetup_with_def)
qed

text \<open>Witness of C1: the call \<open>get\<close> with \<open>{objectType: "Product"}\<close> and a usable
  connection.\<close>

theorem getCallSetup_throws_on_every_catalog_call_witness:
  "''get'' \<in> set (map fst availableCalls) \<and>
   getCallSetup dwConfig_initial (Inr dw_example) ''systemObjectDefinitions'' ''get''
     (JObj [(''objectType'', JStr ''Product'')]) = Inl TypeError"
proof -
  have a: "''get'' \<in> set (map fst availableCalls)" by (simp add: availableCalls_def)
  show ?thesis using a getCallSetup_throws_on_every_catalog_call [OF a] by simp
qed

text \<open>The body of the loop, had it run, would leave a path placeholder in the
  endpoint: the string that \<open>replace\<close> returns is dropped.\<close>

lemma path_parameter_is_not_substituted:
  "getCallSetup_param ''systemObjectDefinitions'' ''get'' (JObj [(''objectType'', JStr ''Product'')])
     (catalog_param ''objectType'' ''string'' ''PATH_PARAMETER'')
     (setupResult_default\<lparr>endpoint := ''/dw/data/system_object_definitions/{objectType}''\<rparr>) =
   Inr (setupResult_default\<lparr>endpoint := ''/dw/data/system_object_definitions/{objectType}''\<rparr>)"
  by code_simp

text \<open>
  Claim C2 says that \<open>getCallSetup\<close> never throws and reports each failure mode with
  \<open>setupError\<close> set and a populated \<open>setupErrMsg\<close>. The code does not do so. With a
  usable connection, a call name that the resource does not have is not reported at
  all: the setup comes back with \<open>setupError\<close> false, an empty message and the endpoint
  of the bare API root. A known call without its required parameter throws a
  \<open>TypeError\<close>. A connection that is not \<open>ok\<close> sets \<open>setupError\<close> but leaves the
  message empty.
\<close>

theorem getCallSetup_failure_modes:
  "getCallSetup dwConfig_initial (Inr dw_example) ''systemObjectDefinitions'' ''noSuchCall'' (JObj []) =
     Inr (\<lparr>body = JObj [], callName = [], endpoint = ''https://host.example/s/-/dw/data/'',
            headers = JObj [(''contentType'', JStr ''application/json'')],
            httpMethod = HTTP_VERB_get, setupErrMsg = [], setupError = False\<rparr>,
          dw_example) \<and>
   getCallSetup dwConfig_initial (Inr dw_example) ''systemObjectDefinitions'' ''get'' (JObj []) =
     Inl TypeError \<and>
   getCallSetup dwConfig_initial (Inr dwConfig_initial) ''systemObjectDefinitions'' ''noSuchCall''
       (JObj []) =
     Inr (\<lparr>body = JObj [], callName = [], endpoint = ''/dw/data/'',
            headers = JObj [(''contentType'', JStr ''application/json'')],
            httpMethod = HTTP_VERB_get, setupErrMsg = [], setupError = True\<rparr>,
          dwConfig_initial)"
  by code_simp

text \<open>The one failure mode that is reported as the claim says: a resource that the
  catalog does not have.\<close>

lemma unknown_resource_is_reported:
  "\<not> hasOwnProperty (field apiConfig ''resources'') resourceName \<Longrightarrow>
   getCallSetup dwConfig found resourceName callName' callData =
     Inr (setupResult_default\<lparr>setupError := True,
            setupErrMsg := nl ''No setup was found in apiConfig for the specified resource''\<rparr>,
          dwConfig)"
  by (simp add: getCallSetup_def getCallSetup_with_def getCallSetup_structure_def get_def
      apiConfig_def lookup_def)

text \<open>
  Claim C3, as amended. For a call whose one required parameter is the query parameter
  \<open>select\<close>, with the value \<open>(**)\<close>, the parameter step of the resolver appends
  \<open>?select=(**)\<close> to an endpoint that has no query string yet: key and value go
  through \<open>encodeURIComponent\<close>, which leaves the characters \<open>(\<close>, \<open>*\<close> and \<open>)\<close> as
  they are.
\<close>

theorem select_parameter_is_appended_unescaped:
  assumes "\<not> contains (endpoint setupResult) ''?''"
  shows "getCallSetup_param resourceName callName' (JObj [(''select'', JStr ''(**)'')])
           (catalog_param ''select'' ''string'' ''QUERY_PARAMETER'') setupResult =
         Inr (setupResult\<lparr>endpoint := endpoint setupResult @ ''?select=(**)''\<rparr>)"
proof -
  have e1: "encodeURIComponent (JStr ''select'') = ''select''" by code_simp
  have e2: "encodeURIComponent (JStr ''(**)'') = ''(**)''" by code_simp
  show ?thesis
    using assms
    by (simp add: getCallSetup_param_def catalog_param_def get_def lookup_def e1 e2)
qed

text \<open>Witness of C3: the endpoint \<open>/dw/data/v20_4/system_object_definitions\<close>.\<close>

theorem select_parameter_is_appended_unescaped_witness:
  "\<not> contains ''/dw/data/v20_4/system_object_definitions'' ''?'' \<and>
   getCallSetup_param ''systemObjectDefinitions'' ''getAll'' (JObj [(''select'', JStr ''(**)'')])
     (catalog_param ''select'' ''string'' ''QUERY_PARAMETER'')
     (setupResult_default\<lparr>endpoint := ''/dw/data/v20_4/system_object_definitions''\<rparr>) =
   Inr (setupResult_default\<lparr>endpoint := ''/dw/data/v20_4/system_object_definitions?select=(**)''\<rparr>)"
proof -
  have a: "\<not> contains (endpoint (setupResult_default\<lparr>endpoint := ''/dw/data/v20_4/system_object_definitions''\<rparr>)) ''?''"
    by code_simp
  have b: "\<not> contains ''/dw/data/v20_4/system_object_definitions'' ''?''" by code_simp
  show ?thesis
    using b select_parameter_is_appended_unescaped [OF a, of "''systemObjectDefinitions''" "''getAll''"]
    by simp
qed

text \<open>Counterexample to C3 as stated: over a catalog whose call \<open>getAll\<close> declares the
  one query parameter \<open>select\<close>, with the API root \<open>data/v20_4\<close>, the path
  \<open>system_object_definitions\<close> and a usable connection at \<open>https://host.example/s/-\<close>,
  \<open>getCallSetup\<close> with \<open>{select: "(**)"}\<close> returns no endpoint at all: it throws. The
  parameter step alone, on the full endpoint, appends the value unescaped.\<close>

theorem select_only_call_throws:
  "getCallSetup_with catalog_select_only dwConfig_initial (Inr dw_example)
     ''systemObjectDefinitions'' ''getAll'' (JObj [(''select'', JStr ''(**)'')]) = Inl TypeError \<and>
   getCallSetup_param ''systemObjectDefinitions'' ''getAll'' (JObj [(''select'', JStr ''(**)'')])
     (catalog_param ''select'' ''string'' ''QUERY_PARAMETER'')
     (setupResult_default
        \<lparr>endpoint := ''https://host.example/s/-/dw/data/v20_4/system_object_definitions''\<rparr>) =
   Inr (setupResult_default
          \<lparr>endpoint :=
             ''https://host.example/s/-/dw/data/v20_4/system_object_definitions?select=(**)''\<rparr>)"
  by code_simp

end
